theory Spec2Isabelle
  imports Complex_Main "HOL-Library.Word"
begin

unbundle bit_operations_syntax

chapter \<open>The incremental index manager of mcp-ace\<close>

text \<open>
  A shallow embedding of the class \<open>IndexManager\<close>: content hashing, exclusion
  matching, chunking, the retry policy, the incremental indexing pass and the search
  orchestration. Strings are lists of 8-bit characters, read as the UTF-8 bytes of the
  JavaScript string; for ASCII text a character is one UTF-16 code unit of the source.
  Counts and sizes (\<open>batchSize\<close>, \<open>maxLinesPerBlob\<close>, attempt numbers, delays in
  milliseconds) are natural numbers; the numbers of a JSON document are rationals.
\<close>

section \<open>Text utilities of the host language\<close>

text \<open>Decimal rendering of a number inside a template literal.\<close>

definition digit_char :: "nat \<Rightarrow> char" where
  "digit_char d = ''0123456789'' ! (d mod 10)"

function show_nat :: "nat \<Rightarrow> string" where
  "show_nat n = (if n < 10 then [digit_char n] else show_nat (n div 10) @ [digit_char (n mod 10)])"
  by pat_completeness auto
termination
  by (relation "measure (\<lambda>n. n)") auto

text \<open>\<open>content.split('\n')\<close>: never empty; \<open>lines.join('\n')\<close>.\<close>

definition newline :: char where
  "newline = CHR 0x0A"

fun split_nl :: "string \<Rightarrow> string list" where
  "split_nl [] = [[]]"
| "split_nl (c # cs) =
     (if c = newline then [] # split_nl cs
      else (c # hd (split_nl cs)) # tl (split_nl cs))"

fun join_nl :: "string list \<Rightarrow> string" where
  "join_nl [] = []"
| "join_nl [l] = l"
| "join_nl (l # ls) = l @ newline # join_nl ls"

text \<open>\<open>xs.slice(start, end)\<close> for \<open>0 \<le> start\<close> and \<open>0 \<le> end\<close>.\<close>

definition slice :: "'a list \<Rightarrow> nat \<Rightarrow> nat \<Rightarrow> 'a list" where
  "slice xs start endi = take (endi - start) (drop start xs)"

text \<open>\<open>Math.ceil(a / b)\<close> for a positive divisor; the callers handle \<open>b = 0\<close>, where
  the quotient of the source is \<open>Infinity\<close>.\<close>

definition ceil_div :: "nat \<Rightarrow> nat \<Rightarrow> nat" where
  "ceil_div a b = (a + b - 1) div b"

text \<open>A \<open>Set\<close> keeps its elements once, in insertion order.\<close>

definition Set_has :: "'a list \<Rightarrow> 'a \<Rightarrow> bool" where
  "Set_has s x = (x \<in> set s)"

definition Set_add :: "'a list \<Rightarrow> 'a \<Rightarrow> 'a list" where
  "Set_add s x = (if Set_has s x then s else s @ [x])"

definition new_Set :: "'a list \<Rightarrow> 'a list" where
  "new_Set xs = fold (\<lambda>x s. Set_add s x) xs []"

text \<open>A \<open>Map\<close> keeps its keys in insertion order; \<open>set\<close> on a present key replaces the
  value in place.\<close>

fun Map_set :: "('k \<times> 'v) list \<Rightarrow> 'k \<Rightarrow> 'v \<Rightarrow> ('k \<times> 'v) list" where
  "Map_set [] k v = [(k, v)]"
| "Map_set ((k', v') # m) k v = (if k' = k then (k, v) # m else (k', v') # Map_set m k v)"

definition Map_get :: "('k \<times> 'v) list \<Rightarrow> 'k \<Rightarrow> 'v option" where
  "Map_get m k = map_of m k"

definition Map_keys :: "('k \<times> 'v) list \<Rightarrow> 'k list" where
  "Map_keys m = map fst m"

section \<open>SHA-256 (FIPS 180-4), as \<open>crypto.createHash('sha256')\<close> computes it\<close>

type_synonym u32 = "32 word"

definition rotr :: "nat \<Rightarrow> u32 \<Rightarrow> u32" where
  "rotr n x = (drop_bit n x) OR (push_bit (32 - n) x)"

definition Ch :: "u32 \<Rightarrow> u32 \<Rightarrow> u32 \<Rightarrow> u32" where
  "Ch x y z = (x AND y) XOR (NOT x AND z)"

definition Maj :: "u32 \<Rightarrow> u32 \<Rightarrow> u32 \<Rightarrow> u32" where
  "Maj x y z = (x AND y) XOR (x AND z) XOR (y AND z)"

definition bsig0 :: "u32 \<Rightarrow> u32" where
  "bsig0 x = rotr 2 x XOR rotr 13 x XOR rotr 22 x"

definition bsig1 :: "u32 \<Rightarrow> u32" where
  "bsig1 x = rotr 6 x XOR rotr 11 x XOR rotr 25 x"

definition ssig0 :: "u32 \<Rightarrow> u32" where
  "ssig0 x = rotr 7 x XOR rotr 18 x XOR drop_bit 3 x"

definition ssig1 :: "u32 \<Rightarrow> u32" where
  "ssig1 x = rotr 17 x XOR rotr 19 x XOR drop_bit 10 x"

definition sha256_K :: "u32 list" where
  "sha256_K =
   [1116352408, 1899447441, 3049323471, 3921009573, 961987163, 1508970993, 2453635748, 2870763221,
    3624381080, 310598401, 607225278, 1426881987, 1925078388, 2162078206, 2614888103, 3248222580,
    3835390401, 4022224774, 264347078, 604807628, 770255983, 1249150122, 1555081692, 1996064986,
    2554220882, 2821834349, 2952996808, 3210313671, 3336571891, 3584528711, 113926993, 338241895,
    666307205, 773529912, 1294757372, 1396182291, 1695183700, 1986661051, 2177026350, 2456956037,
    2730485921, 2820302411, 3259730800, 3345764771, 3516065817, 3600352804, 4094571909, 275423344,
    430227734, 506948616, 659060556, 883997877, 958139571, 1322822218, 1537002063, 1747873779,
    1955562222, 2024104815, 2227730452, 2361852424, 2428436474, 2756734187, 3204031479, 3329325298]"

definition sha256_H0 :: "u32 list" where
  "sha256_H0 =
   [1779033703, 3144134277, 1013904242, 2773480762, 1359893119, 2600822924, 528734635, 1541459225]"

text \<open>Padding: a 0x80 byte, zero bytes up to 56 modulo 64, the bit length on 8 bytes.\<close>

definition be_bytes :: "nat \<Rightarrow> nat \<Rightarrow> nat list" where
  "be_bytes k n = map (\<lambda>i. (n div 256 ^ (k - 1 - i)) mod 256) [0..<k]"

definition sha256_pad :: "nat list \<Rightarrow> nat list" where
  "sha256_pad bs =
     bs @ [128] @ replicate ((119 - length bs mod 64) mod 64) 0 @ be_bytes 8 (8 * length bs)"

fun be_words :: "nat list \<Rightarrow> u32 list" where
  "be_words (a # b # c # d # r) = of_nat (((a * 256 + b) * 256 + c) * 256 + d) # be_words r"
| "be_words _ = []"

fun schedule :: "nat \<Rightarrow> u32 list \<Rightarrow> u32 list" where
  "schedule 0 w = w"
| "schedule (Suc n) w =
     schedule n (w @ [ssig1 (w ! (length w - 2)) + w ! (length w - 7)
                      + ssig0 (w ! (length w - 15)) + w ! (length w - 16)])"

fun sha256_round :: "u32 \<times> u32 \<Rightarrow> u32 list \<Rightarrow> u32 list" where
  "sha256_round (k, w) [a, b, c, d, e, f, g, h] =
     (let t1 = h + bsig1 e + Ch e f g + k + w;
          t2 = bsig0 a + Maj a b c
      in [t1 + t2, a, b, c, d + t1, e, f, g])"
| "sha256_round _ s = s"

definition sha256_block :: "u32 list \<Rightarrow> u32 list \<Rightarrow> u32 list" where
  "sha256_block hs ws = map2 (+) hs (fold sha256_round (zip sha256_K (schedule 48 ws)) hs)"

function sha256_blocks :: "u32 list \<Rightarrow> u32 list \<Rightarrow> u32 list" where
  "sha256_blocks hs ws =
     (if length ws < 16 then hs
      else sha256_blocks (sha256_block hs (take 16 ws)) (drop 16 ws))"
  by pat_completeness auto
termination
  by (relation "measure (\<lambda>(hs, ws). length ws)") auto

definition sha256 :: "nat list \<Rightarrow> u32 list" where
  "sha256 bs = sha256_blocks sha256_H0 (be_words (sha256_pad bs))"

definition hex_digit :: "nat \<Rightarrow> char" where
  "hex_digit d = ''0123456789abcdef'' ! (d mod 16)"

definition hex_u32 :: "u32 \<Rightarrow> string" where
  "hex_u32 w = map (\<lambda>i. hex_digit (unat w div 16 ^ (7 - i))) [0..<8]"

definition sha256_hex :: "string \<Rightarrow> string" where
  "sha256_hex s = concat (map hex_u32 (sha256 (map of_char s)))"

section \<open>Data model\<close>

record Blob =
  path :: string
  content :: string
  hash :: "string option"

record Config =
  baseUrl :: string
  token :: string
  batchSize :: nat
  maxLinesPerBlob :: nat
  textExtensions :: "string list"
  excludePatterns :: "string list"
  storagePath :: string
  defaultProject :: "string option"

section \<open>Content hasher\<close>

text \<open>The hasher object: \<open>update\<close> appends to the pending input, \<open>digest('hex')\<close>
  renders the digest of all of it.\<close>

record Hasher =
  pending :: string

definition createHash_sha256 :: Hasher where
  "createHash_sha256 = \<lparr>pending = []\<rparr>"

definition update :: "Hasher \<Rightarrow> string \<Rightarrow> Hasher" where
  "update h s = h\<lparr>pending := pending h @ s\<rparr>"

definition digest_hex :: "Hasher \<Rightarrow> string" where
  "digest_hex h = sha256_hex (pending h)"

definition calculateHash :: "string \<Rightarrow> string \<Rightarrow> string" where
  "calculateHash filePath content' =
     (let hasher = createHash_sha256;
          hasher = update hasher filePath;
          hasher = update hasher content'
      in digest_hex hasher)"

section \<open>Diff engine: steps 3 and 4 of \<open>indexProject\<close>\<close>

definition blobHashMap :: "Blob list \<Rightarrow> (string \<times> Blob) list" where
  "blobHashMap blobs =
     fold (\<lambda>blob m.
             let h = calculateHash (path blob) (content blob)
             in Map_set m h (blob\<lparr>hash := Some h\<rparr>))
          blobs []"

definition currentHashes :: "Blob list \<Rightarrow> string list" where
  "currentHashes blobs = new_Set (Map_keys (blobHashMap blobs))"

definition unchangedHashes :: "string list \<Rightarrow> string list \<Rightarrow> string list" where
  "unchangedHashes existingHashes current =
     new_Set (filter (\<lambda>h. Set_has existingHashes h) current)"

definition newHashes :: "string list \<Rightarrow> string list \<Rightarrow> string list" where
  "newHashes existingHashes current =
     new_Set (filter (\<lambda>h. \<not> Set_has existingHashes h) current)"

text \<open>The hash of a blob.\<close>

definition hashOf :: "Blob \<Rightarrow> string" where
  "hashOf b = calculateHash (path b) (content b)"

definition blobsToUpload :: "(string \<times> Blob) list \<Rightarrow> string list \<Rightarrow> Blob list" where
  "blobsToUpload m new = map (\<lambda>h. the (Map_get m h)) new"

section \<open>Chunker\<close>

text \<open>With \<open>maxLinesPerBlob = 0\<close> the chunk count of the source is \<open>Infinity\<close> and its loop
  does not end: the result \<open>None\<close>.\<close>

definition splitFileContent :: "Config \<Rightarrow> string \<Rightarrow> string \<Rightarrow> Blob list option" where
  "splitFileContent config filePath content' =
     (let lines = split_nl content';
          totalLines = length lines
      in if totalLines \<le> maxLinesPerBlob config
         then Some [\<lparr>path = filePath, content = content', hash = None\<rparr>]
         else if maxLinesPerBlob config = 0 then None
         else
           let numChunks = ceil_div totalLines (maxLinesPerBlob config)
           in Some (map (\<lambda>i.
                      let start = i * maxLinesPerBlob config;
                          endi = min (start + maxLinesPerBlob config) totalLines;
                          chunkLines = slice lines start endi;
                          chunkContent = join_nl chunkLines;
                          chunkPath = filePath @ ''#chunk'' @ show_nat (i + 1)
                                        @ ''of'' @ show_nat numChunks
                      in \<lparr>path = chunkPath, content = chunkContent, hash = None\<rparr>)
                    [0..<numChunks]))"

section \<open>Retry policy\<close>

text \<open>A thrown value: an error of the HTTP client, with its \<open>code\<close>, the status of its
  response when there is one and its message, or any other error, with its message.\<close>

datatype thrown =
    AxiosError "string option" "nat option" string
  | OtherError string

fun error_message :: "thrown \<Rightarrow> string" where
  "error_message (AxiosError code st msg) = msg"
| "error_message (OtherError msg) = msg"

text \<open>What one call of the request function does.\<close>

datatype 'a attempt = Returns 'a | Throws thrown

record RetryOptions =
  maxRetries :: "nat option"
  retryDelay :: "nat option"

text \<open>The flag \<open>isRetryable\<close>, computed from the code and the response status of a client
  error; \<open>response?.status ?? 0\<close> is 0 without a response.\<close>

definition isRetryable :: "string option \<Rightarrow> nat option \<Rightarrow> bool" where
  "isRetryable code st =
     (code = Some ''ECONNABORTED'' \<or> code = Some ''ETIMEDOUT'' \<or> code = Some ''ECONNREFUSED''
      \<or> st = Some 429 \<or> (case st of None \<Rightarrow> 0 | Some s \<Rightarrow> s) \<ge> 500)"

text \<open>The \<open>catch\<close> block rethrows at once a client error that is not retryable; an error
  that is not a client error passes the test.\<close>

fun rethrown :: "thrown \<Rightarrow> bool" where
  "rethrown (AxiosError code st msg) = (\<not> isRetryable code st)"
| "rethrown (OtherError msg) = False"

text \<open>One run of \<open>retryRequest\<close>: what it returns or throws (\<open>None\<close>: the initial
  \<open>lastError = null\<close>), the waits it made in milliseconds, and how many times it called
  the request function.\<close>

record 'a RetryRun =
  outcome :: "thrown option + 'a"
  waits :: "nat list"
  calls :: nat

function retryLoop ::
  "nat \<Rightarrow> nat \<Rightarrow> (nat \<Rightarrow> 'a attempt) \<Rightarrow> nat \<Rightarrow> thrown option \<Rightarrow> nat list \<Rightarrow> 'a RetryRun" where
  "retryLoop maxR delay fn attempt lastError ws =
     (if attempt < maxR then
        (case fn attempt of
           Returns v \<Rightarrow> \<lparr>outcome = Inr v, waits = ws, calls = attempt + 1\<rparr>
         | Throws e \<Rightarrow>
             if rethrown e then \<lparr>outcome = Inl (Some e), waits = ws, calls = attempt + 1\<rparr>
             else retryLoop maxR delay fn (attempt + 1) (Some e)
                    (if attempt < maxR - 1 then ws @ [delay * 2 ^ attempt] else ws))
      else \<lparr>outcome = Inl lastError, waits = ws, calls = attempt\<rparr>)"
  by pat_completeness auto
termination
  by (relation "measure (\<lambda>(maxR, delay, fn, attempt, lastError, ws). maxR - attempt)") auto

definition retryRequest :: "(nat \<Rightarrow> 'a attempt) \<Rightarrow> RetryOptions \<Rightarrow> 'a RetryRun" where
  "retryRequest fn options =
     (let maxR = (case maxRetries options of None \<Rightarrow> 3 | Some m \<Rightarrow> m);
          delay = (case retryDelay options of None \<Rightarrow> 1000 | Some d \<Rightarrow> d)
      in retryLoop maxR delay fn 0 None [])"

section \<open>Messages\<close>

text \<open>The message texts of the source, as their UTF-8 bytes.\<close>

text \<open>\<open>msg_no_text_files\<close>: "no text files found in the project".\<close>

definition msg_no_text_files :: string where
  "msg_no_text_files =
      [CHR 0xE9, CHR 0xA1, CHR 0xB9, CHR 0xE7, CHR 0x9B, CHR 0xAE, CHR 0xE4, CHR 0xB8, CHR
      0xAD, CHR 0xE6, CHR 0x9C, CHR 0xAA, CHR 0xE6, CHR 0x89, CHR 0xBE, CHR 0xE5, CHR 0x88,
      CHR 0xB0, CHR 0xE6, CHR 0x96, CHR 0x87, CHR 0xE6, CHR 0x9C, CHR 0xAC, CHR 0xE6, CHR
      0x96, CHR 0x87, CHR 0xE4, CHR 0xBB, CHR 0xB6]"

text \<open>\<open>msg_indexed\<close>: "project indexed, in all".\<close>

definition msg_indexed :: string where
  "msg_indexed =
      [CHR 0xE9, CHR 0xA1, CHR 0xB9, CHR 0xE7, CHR 0x9B, CHR 0xAE, CHR 0xE5, CHR 0xB7, CHR
      0xB2, CHR 0xE7, CHR 0xB4, CHR 0xA2, CHR 0xE5, CHR 0xBC, CHR 0x95, CHR 0xEF, CHR 0xBC,
      CHR 0x8C, CHR 0xE5, CHR 0x85, CHR 0xB1] @ '' ''"

text \<open>\<open>msg_blobs_existing\<close>: "blobs (existing:".\<close>

definition msg_blobs_existing :: string where
  "msg_blobs_existing =
      '' '' @ [CHR 0xE4, CHR 0xB8, CHR 0xAA] @ '' blobs ('' @ [CHR 0xE5, CHR 0xB7, CHR 0xB2,
      CHR 0xE5, CHR 0xAD, CHR 0x98, CHR 0xE5, CHR 0x9C, CHR 0xA8] @ '': ''"

text \<open>\<open>msg_added\<close>: "added:".\<close>

definition msg_added :: string where
  "msg_added =
      '', '' @ [CHR 0xE6, CHR 0x96, CHR 0xB0, CHR 0xE5, CHR 0xA2, CHR 0x9E] @ '': ''"

text \<open>\<open>msg_all_existing\<close>: "blobs (all exist, nothing to upload)".\<close>

definition msg_all_existing :: string where
  "msg_all_existing =
      '' '' @ [CHR 0xE4, CHR 0xB8, CHR 0xAA] @ '' blobs ('' @ [CHR 0xE5, CHR 0x85, CHR 0xA8,
      CHR 0xE9, CHR 0x83, CHR 0xA8, CHR 0xE5, CHR 0xB7, CHR 0xB2, CHR 0xE5, CHR 0xAD, CHR
      0x98, CHR 0xE5, CHR 0x9C, CHR 0xA8, CHR 0xEF, CHR 0xBC, CHR 0x8C, CHR 0xE6, CHR 0x97,
      CHR 0xA0, CHR 0xE9, CHR 0x9C, CHR 0x80, CHR 0xE4, CHR 0xB8, CHR 0x8A, CHR 0xE4, CHR
      0xBC, CHR 0xA0] @ '')''"

text \<open>\<open>msg_index_failed\<close>: "Error: indexing failed.".\<close>

definition msg_index_failed :: string where
  "msg_index_failed =
      ''Error: '' @ [CHR 0xE7, CHR 0xB4, CHR 0xA2, CHR 0xE5, CHR 0xBC, CHR 0x95, CHR 0xE5, CHR
      0xA4, CHR 0xB1, CHR 0xE8, CHR 0xB4, CHR 0xA5] @ ''. ''"

text \<open>\<open>msg_no_blobs_after_index\<close>: "Error: no blobs found after indexing".\<close>

definition msg_no_blobs_after_index :: string where
  "msg_no_blobs_after_index =
      ''Error: '' @ [CHR 0xE7, CHR 0xB4, CHR 0xA2, CHR 0xE5, CHR 0xBC, CHR 0x95, CHR 0xE5, CHR
      0x90, CHR 0x8E, CHR 0xE6, CHR 0x9C, CHR 0xAA, CHR 0xE6, CHR 0x89, CHR 0xBE, CHR 0xE5,
      CHR 0x88, CHR 0xB0] @ '' blobs''"

text \<open>\<open>msg_no_results\<close>: "no code context found for your query".\<close>

definition msg_no_results :: string where
  "msg_no_results =
      [CHR 0xE6, CHR 0x9C, CHR 0xAA, CHR 0xE6, CHR 0x89, CHR 0xBE, CHR 0xE5, CHR 0x88, CHR
      0xB0, CHR 0xE4, CHR 0xB8, CHR 0x8E, CHR 0xE6, CHR 0x82, CHR 0xA8, CHR 0xE7, CHR 0x9A,
      CHR 0x84, CHR 0xE6, CHR 0x9F, CHR 0xA5, CHR 0xE8, CHR 0xAF, CHR 0xA2, CHR 0xE7, CHR
      0x9B, CHR 0xB8, CHR 0xE5, CHR 0x85, CHR 0xB3, CHR 0xE7, CHR 0x9A, CHR 0x84, CHR 0xE4,
      CHR 0xBB, CHR 0xA3, CHR 0xE7, CHR 0xA0, CHR 0x81, CHR 0xE4, CHR 0xB8, CHR 0x8A, CHR
      0xE4, CHR 0xB8, CHR 0x8B, CHR 0xE6, CHR 0x96, CHR 0x87]"

section \<open>JSON values\<close>

text \<open>
  What \<open>JSON.parse\<close> returns: \<open>null\<close>, a boolean, a number, a string, an array or an
  object with its keys in order. A number beyond the range of doubles parses to
  \<open>Infinity\<close> or \<open>-Infinity\<close> (\<open>JInfinity\<close>, with the sign).
\<close>

datatype json =
    JNull
  | JBool bool
  | JNumber rat
  | JInfinity bool
  | JString string
  | JArray "json list"
  | JObject "(string \<times> json) list"

text \<open>The values that \<open>||\<close> skips. \<open>x || []\<close>, with \<open>None\<close> for \<open>undefined\<close>.\<close>

fun falsy :: "json \<Rightarrow> bool" where
  "falsy JNull = True"
| "falsy (JBool b) = (\<not> b)"
| "falsy (JNumber x) = (x = 0)"
| "falsy (JString s) = (s = [])"
| "falsy v = False"

definition orEmpty :: "json option \<Rightarrow> json" where
  "orEmpty x = (case x of None \<Rightarrow> JArray [] | Some v \<Rightarrow> if falsy v then JArray [] else v)"

text \<open>
  \<open>value[key]\<close> for a key that is an absolute path: such a key contains a slash, so it
  names no array index, no \<open>length\<close> and no inherited property. Reading a property of
  \<open>null\<close> throws a \<open>TypeError\<close>, whose message \<open>te\<close> the engine words.
\<close>

fun getProperty :: "string \<Rightarrow> json \<Rightarrow> string \<Rightarrow> thrown + json option" where
  "getProperty te JNull key = Inl (OtherError te)"
| "getProperty te (JObject m) key = Inr (Map_get m key)"
| "getProperty te v key = Inr None"

text \<open>The elements \<open>new Set(value)\<close> iterates over: those of an array, the characters of a
  string; any other value is not iterable, a \<open>TypeError\<close>.\<close>

fun iterate :: "string \<Rightarrow> json \<Rightarrow> thrown + json list" where
  "iterate te (JArray xs) = Inr xs"
| "iterate te (JString s) = Inr (map (\<lambda>c. JString [c]) s)"
| "iterate te v = Inl (OtherError te)"

text \<open>The strings among some values: a set of values \<open>has\<close> a string only as one of
  these.\<close>

fun stringsOf :: "json list \<Rightarrow> string list" where
  "stringsOf [] = []"
| "stringsOf (JString s # vs) = s # stringsOf vs"
| "stringsOf (v # vs) = stringsOf vs"

text \<open>
  \<open>value[key] = v\<close> in a module, which runs in strict mode, as \<open>JSON.stringify\<close> will see
  the value: an object gets or replaces the key; an array takes the property beside its
  elements, and only the elements are written; \<open>null\<close> and a primitive value throw a
  \<open>TypeError\<close>.
\<close>

fun assignProperty :: "string \<Rightarrow> json \<Rightarrow> string \<Rightarrow> json \<Rightarrow> thrown + json" where
  "assignProperty te (JObject m) key v = Inr (JObject (Map_set m key v))"
| "assignProperty te (JArray xs) key v = Inr (JArray xs)"
| "assignProperty te u key v = Inl (OtherError te)"

text \<open>What is read back after \<open>JSON.stringify\<close>: an infinite number is written as
  \<open>null\<close>, everything else as it is.\<close>

fun serialized :: "json \<Rightarrow> json" where
  "serialized (JArray xs) = JArray (map serialized xs)"
| "serialized (JObject m) = JObject (map (\<lambda>entry. (fst entry, serialized (snd entry))) m)"
| "serialized (JInfinity negative) = JNull"
| "serialized v = v"

text \<open>\<open>value.length === 0\<close>.\<close>

fun lengthIsZero :: "json \<Rightarrow> bool" where
  "lengthIsZero (JArray xs) = (xs = [])"
| "lengthIsZero (JString s) = (s = [])"
| "lengthIsZero (JObject m) = (Map_get m ''length'' = Some (JNumber 0))"
| "lengthIsZero v = False"

section \<open>Project index store\<close>

text \<open>\<open>projects.json\<close> is absent, cannot be read or parsed, or parses to a value.
  \<open>loadProjects\<close> returns that value as it is, and an empty object in the other two
  cases.\<close>

datatype projects_file = NoFile | Corrupt | Parsed json

definition loadProjects :: "projects_file \<Rightarrow> json" where
  "loadProjects file =
     (case file of NoFile \<Rightarrow> JObject [] | Corrupt \<Rightarrow> JObject [] | Parsed projects \<Rightarrow> projects)"

text \<open>\<open>new Set(projects[normalizedPath] || [])\<close>, before the set is built.\<close>

definition existingElements :: "string \<Rightarrow> json \<Rightarrow> string \<Rightarrow> thrown + json list" where
  "existingElements te projects normalizedPath =
     (case getProperty te projects normalizedPath of
        Inl e \<Rightarrow> Inl e
      | Inr x \<Rightarrow> iterate te (orEmpty x))"

text \<open>\<open>saveProjects\<close> rethrows what creating the directory or writing the file throws;
  the file is then left as it was.\<close>

definition saveProjects :: "thrown option \<Rightarrow> json \<Rightarrow> thrown + projects_file" where
  "saveProjects writeError projects =
     (case writeError of Some e \<Rightarrow> Inl e | None \<Rightarrow> Inr (Parsed (serialized projects)))"

text \<open>\<open>path.resolve\<close> belongs to the platform and is a parameter; backslashes become
  slashes.\<close>

definition normalizePath :: "(string \<Rightarrow> string) \<Rightarrow> string \<Rightarrow> string" where
  "normalizePath path_resolve filePath =
     map (\<lambda>c. if c = CHR 0x5C then CHR ''/'' else c) (path_resolve filePath)"

section \<open>What the process meets outside of itself\<close>

record BatchUploadResponse =
  blob_names :: "string list option"

record SearchResponse =
  formatted_retrieval :: "string option"

text \<open>
  The outcome of the file walk \<open>collectFiles\<close>, the state of \<open>projects.json\<close>, the
  answer of the upload endpoint to the call number \<open>attempt\<close> for the batch \<open>batchIdx\<close>
  with a payload of paths and contents, what writing \<open>projects.json\<close> throws if it
  throws, the answer of the retrieval endpoint to a query over blob names, and the
  message of the \<open>TypeError\<close> of the engine when the stored value cannot be used.
\<close>

record World =
  collectFiles :: "thrown + Blob list"
  projectsFile :: projects_file
  postBatchUpload :: "nat \<Rightarrow> (string \<times> string) list \<Rightarrow> nat \<Rightarrow> BatchUploadResponse attempt"
  writeError :: "thrown option"
  postRetrieval :: "string \<Rightarrow> json \<Rightarrow> nat \<Rightarrow> SearchResponse attempt"
  typeErrorText :: string

section \<open>Batch uploader: step 5 of \<open>indexProject\<close>\<close>

definition batchBlobs :: "Config \<Rightarrow> Blob list \<Rightarrow> nat \<Rightarrow> Blob list" where
  "batchBlobs config toUpload batchIdx =
     (let start = batchIdx * batchSize config;
          endi = min (start + batchSize config) (length toUpload)
      in slice toUpload start endi)"

definition uploadBatch :: "Config \<Rightarrow> World \<Rightarrow> Blob list \<Rightarrow> nat \<Rightarrow> BatchUploadResponse RetryRun" where
  "uploadBatch config w toUpload batchIdx =
     retryRequest
       (postBatchUpload w batchIdx
          (map (\<lambda>b. (path b, content b)) (batchBlobs config toUpload batchIdx)))
       \<lparr>maxRetries = Some 3, retryDelay = Some 1000\<rparr>"

record UploadState =
  uploaded :: "string list"
  failed :: "nat list"
  posts :: nat

function uploadLoop ::
  "Config \<Rightarrow> World \<Rightarrow> Blob list \<Rightarrow> nat \<Rightarrow> nat \<Rightarrow> UploadState \<Rightarrow> UploadState" where
  "uploadLoop config w toUpload totalBatches batchIdx st =
     (if batchIdx < totalBatches then
        let run = uploadBatch config w toUpload batchIdx;
            st = st\<lparr>posts := posts st + calls run\<rparr>
        in uploadLoop config w toUpload totalBatches (batchIdx + 1)
             (case outcome run of
                Inr response \<Rightarrow>
                  (case blob_names response of
                     Some names \<Rightarrow>
                       if names \<noteq> [] then st\<lparr>uploaded := uploaded st @ names\<rparr>
                       else st\<lparr>failed := failed st @ [batchIdx + 1]\<rparr>
                   | None \<Rightarrow> st\<lparr>failed := failed st @ [batchIdx + 1]\<rparr>)
              | Inl e \<Rightarrow> st\<lparr>failed := failed st @ [batchIdx + 1]\<rparr>)
      else st)"
  by pat_completeness auto
termination
  by (relation "measure (\<lambda>(config, w, toUpload, totalBatches, batchIdx, st). totalBatches - batchIdx)")
     auto

text \<open>Whether the run of a batch counts as uploaded, and the names it then contributes.\<close>

definition batchSucceeded :: "BatchUploadResponse RetryRun \<Rightarrow> bool" where
  "batchSucceeded run =
     (case outcome run of
        Inr response \<Rightarrow> (case blob_names response of Some names \<Rightarrow> names \<noteq> [] | None \<Rightarrow> False)
      | Inl e \<Rightarrow> False)"

definition returnedNames :: "BatchUploadResponse RetryRun \<Rightarrow> string list" where
  "returnedNames run =
     (case outcome run of
        Inr response \<Rightarrow> (case blob_names response of Some names \<Rightarrow> names | None \<Rightarrow> [])
      | Inl e \<Rightarrow> [])"

section \<open>The indexing pass\<close>

datatype index_status = success | partial_success | error

record IndexStats =
  totalBlobs :: nat
  existingBlobs :: nat
  newBlobs :: nat
  skippedBlobs :: nat

record IndexResult =
  status :: index_status
  message :: string
  projectPath :: "string option"
  failedBatches :: "nat list option"
  stats :: "IndexStats option"

definition error_result :: "string \<Rightarrow> IndexResult" where
  "error_result msg =
     \<lparr>status = error, message = msg, projectPath = None, failedBatches = None, stats = None\<rparr>"

text \<open>One pass: the result returned, \<open>projects.json\<close> afterwards, and the number of
  upload requests sent.\<close>

record IndexRun =
  result :: IndexResult
  fileAfter :: projects_file
  uploadCalls :: nat

text \<open>
  With \<open>batchSize = 0\<close> and something to upload, the batch count of the source is
  \<open>Infinity\<close> and its loop does not end: the pass is \<open>None\<close>.
\<close>

definition indexProject ::
  "Config \<Rightarrow> (string \<Rightarrow> string) \<Rightarrow> World \<Rightarrow> string \<Rightarrow> IndexRun option" where
  "indexProject config path_resolve w projectPath' =
     (let normalizedPath = normalizePath path_resolve projectPath' in
      case collectFiles w of
        Inl e \<Rightarrow>
          Some \<lparr>result = error_result (error_message e), fileAfter = projectsFile w,
                uploadCalls = 0\<rparr>
      | Inr blobs \<Rightarrow>
          if length blobs = 0
          then Some \<lparr>result = error_result msg_no_text_files, fileAfter = projectsFile w,
                     uploadCalls = 0\<rparr>
          else
            let projects = loadProjects (projectsFile w) in
            case existingElements (typeErrorText w) projects normalizedPath of
              Inl e \<Rightarrow>
                Some \<lparr>result = error_result (error_message e), fileAfter = projectsFile w,
                      uploadCalls = 0\<rparr>
            | Inr elements \<Rightarrow>
                let existingHashes = new_Set (stringsOf elements);
                    hashMap = blobHashMap blobs;
                    current = currentHashes blobs;
                    unchanged = unchangedHashes existingHashes current;
                    new = newHashes existingHashes current;
                    toUpload = blobsToUpload hashMap new
                in if length toUpload > 0 \<and> batchSize config = 0 then None
                   else
                     let st = (if length toUpload > 0
                               then uploadLoop config w toUpload
                                      (ceil_div (length toUpload) (batchSize config)) 0
                                      \<lparr>uploaded = [], failed = [], posts = 0\<rparr>
                               else \<lparr>uploaded = [], failed = [], posts = 0\<rparr>);
                         allHashes = unchanged @ uploaded st
                     in case (case assignProperty (typeErrorText w) projects normalizedPath
                                     (JArray (map JString allHashes)) of
                                Inl e \<Rightarrow> Inl e
                              | Inr projects \<Rightarrow> saveProjects (writeError w) projects) of
                          Inl e \<Rightarrow>
                            Some \<lparr>result = error_result (error_message e),
                                  fileAfter = projectsFile w, uploadCalls = posts st\<rparr>
                        | Inr file \<Rightarrow>
                            Some \<lparr>result =
                                    \<lparr>status = (if length (failed st) = 0 then success
                                                else partial_success),
                                     message =
                                       (if length toUpload > 0
                                        then msg_indexed @ show_nat (length allHashes)
                                             @ msg_blobs_existing @ show_nat (length unchanged)
                                             @ msg_added @ show_nat (length (uploaded st))
                                             @ '')''
                                        else msg_indexed @ show_nat (length allHashes)
                                             @ msg_all_existing),
                                     projectPath = Some normalizedPath,
                                     failedBatches = Some (failed st),
                                     stats = Some \<lparr>totalBlobs = length allHashes,
                                                   existingBlobs = length unchanged,
                                                   newBlobs = length (uploaded st),
                                                   skippedBlobs = length unchanged\<rparr>\<rparr>,
                                  fileAfter = file, uploadCalls = posts st\<rparr>)"

section \<open>Search orchestrator\<close>

text \<open>The text of what was thrown: the message of an error, \<open>String(null)\<close> for the
  \<open>null\<close> that \<open>retryRequest\<close> throws when it made no call.\<close>

definition thrown_text :: "thrown option \<Rightarrow> string" where
  "thrown_text t = (case t of None \<Rightarrow> ''null'' | Some e \<Rightarrow> error_message e)"

definition searchContext ::
  "Config \<Rightarrow> (string \<Rightarrow> string) \<Rightarrow> World \<Rightarrow> string \<Rightarrow> string \<Rightarrow> string option" where
  "searchContext config path_resolve w projectPath' query =
     (let normalizedPath = normalizePath path_resolve projectPath' in
      case indexProject config path_resolve w projectPath' of
        None \<Rightarrow> None
      | Some run \<Rightarrow>
          let indexResult = result run in
          if status indexResult = error
          then Some (msg_index_failed @ message indexResult)
          else
            let projects = loadProjects (fileAfter run) in
            case getProperty (typeErrorText w) projects normalizedPath of
              Inl e \<Rightarrow> Some (''Error: '' @ error_message e)
            | Inr x \<Rightarrow>
                let blobNames = orEmpty x
                in if lengthIsZero blobNames then Some msg_no_blobs_after_index
                   else
                     case outcome (retryRequest (postRetrieval w query blobNames)
                                     \<lparr>maxRetries = Some 3, retryDelay = Some 2000\<rparr>) of
                       Inr response \<Rightarrow>
                         let formattedRetrieval =
                               (case formatted_retrieval response of
                                  None \<Rightarrow> [] | Some text \<Rightarrow> text)
                         in if formattedRetrieval = [] then Some msg_no_results
                            else Some formattedRetrieval
                     | Inl e \<Rightarrow> Some (''Error: '' @ thrown_text e))"

section \<open>Example inputs\<close>

definition example_config :: Config where
  "example_config =
     \<lparr>baseUrl = ''https://index.example'', token = ''secret'', batchSize = 2,
      maxLinesPerBlob = 2, textExtensions = [''.ts'', ''.md''],
      excludePatterns = [''node_modules'', ''*.pyc''], storagePath = ''/home/u/.mcp-ace/data'',
      defaultProject = None\<rparr>"

definition three_lines :: string where
  "three_lines = ''one'' @ newline # ''two'' @ newline # ''three''"

text \<open>Request functions that fail the same way at every call.\<close>

definition unavailable :: "nat \<Rightarrow> unit attempt" where
  "unavailable attempt = Throws (AxiosError None (Some 503) ''Service Unavailable'')"

definition not_found :: "nat \<Rightarrow> unit attempt" where
  "not_found attempt = Throws (AxiosError None (Some 404) ''Not Found'')"

definition connection_reset :: "nat \<Rightarrow> unit attempt" where
  "connection_reset attempt = Throws (AxiosError (Some ''ECONNRESET'') None ''read ECONNRESET'')"

definition type_error :: "nat \<Rightarrow> unit attempt" where
  "type_error attempt = Throws (OtherError ''Invalid URL'')"

text \<open>Four small files, and a configuration that uploads one blob per batch.\<close>

definition blob_a :: Blob where
  "blob_a = \<lparr>path = ''a.ts'', content = ''let a = 1'', hash = None\<rparr>"

definition blob_b :: Blob where
  "blob_b = \<lparr>path = ''b.ts'', content = ''let b = 2'', hash = None\<rparr>"

definition blob_c :: Blob where
  "blob_c = \<lparr>path = ''c.ts'', content = ''let c = 3'', hash = None\<rparr>"

definition blob_d :: Blob where
  "blob_d = \<lparr>path = ''d.ts'', content = ''let d = 4'', hash = None\<rparr>"

definition one_per_batch :: Config where
  "one_per_batch = example_config\<lparr>batchSize := 1\<rparr>"

text \<open>A service that answers an upload with the hashes of the blobs it was sent.\<close>

definition honest_upload :: "(string \<times> string) list \<Rightarrow> BatchUploadResponse attempt" where
  "honest_upload payload =
     Returns \<lparr>blob_names = Some (map (\<lambda>(p, c). calculateHash p c) payload)\<rparr>"

text \<open>
  The project \<open>/proj\<close> holds the four files; the store knows another project and, for
  this one, the first file. The upload of the second batch is answered with status 503
  at every call, the others are answered honestly.
\<close>

definition example_world :: World where
  "example_world =
     \<lparr>collectFiles = Inr [blob_a, blob_b, blob_c, blob_d],
      projectsFile =
        Parsed (JObject [(''/other'', JArray [JString ''0123'', JString ''4567'']),
                         (''/proj'', JArray [JString (hashOf blob_a)])]),
      postBatchUpload =
        (\<lambda>batchIdx payload attempt.
           if batchIdx = 1 then Throws (AxiosError None (Some 503) ''Service Unavailable'')
           else honest_upload payload),
      writeError = None,
      postRetrieval =
        (\<lambda>query names attempt. Returns \<lparr>formatted_retrieval = Some ''Path: a.ts''\<rparr>),
      typeErrorText = ''Cannot read properties of null''\<rparr>"



text \<open>One new file and no store: every upload is answered with status 503; or the upload
  is answered honestly and \<open>projects.json\<close> cannot be written.\<close>

definition world_503 :: World where
  "world_503 =
     example_world
       \<lparr>collectFiles := Inr [blob_b],
        projectsFile := NoFile,
        postBatchUpload :=
          (\<lambda>batchIdx payload attempt.
             Throws (AxiosError None (Some 503) ''Service Unavailable''))\<rparr>"

definition world_read_only :: World where
  "world_read_only =
     example_world
       \<lparr>collectFiles := Inr [blob_b],
        projectsFile := NoFile,
        postBatchUpload := (\<lambda>batchIdx payload attempt. honest_upload payload),
        writeError := Some (OtherError ''EACCES: permission denied'')\<rparr>"

text \<open>
  Indexing an unchanged project a second time: a project without files and without
  store; a project of one file whose first pass was answered with the same name twice;
  and a project of one file, stored, when \<open>projects.json\<close> cannot be written.
\<close>

definition world_no_files :: World where
  "world_no_files = example_world\<lparr>collectFiles := Inr [], projectsFile := NoFile\<rparr>"

definition world_named_twice :: World where
  "world_named_twice =
     example_world
       \<lparr>collectFiles := Inr [blob_b],
        projectsFile := NoFile,
        postBatchUpload :=
          (\<lambda>batchIdx payload attempt.
             Returns \<lparr>blob_names = Some [hashOf blob_b, hashOf blob_b]\<rparr>)\<rparr>"

definition world_second_pass :: World where
  "world_second_pass =
     world_named_twice
       \<lparr>projectsFile :=
          Parsed (JObject [(''/proj'', JArray [JString (hashOf blob_b), JString (hashOf blob_b)])])\<rparr>"

definition world_stored_read_only :: World where
  "world_stored_read_only =
     example_world
       \<lparr>collectFiles := Inr [blob_b],
        projectsFile := Parsed (JObject [(''/proj'', JArray [JString (hashOf blob_b)])]),
        writeError := Some (OtherError ''EACCES: permission denied'')\<rparr>"

text \<open>The project of the four files after a pass that uploaded them all.\<close>

definition world_indexed :: World where
  "world_indexed =
     example_world
       \<lparr>projectsFile :=
          Parsed (JObject [(''/other'', JArray [JString ''0123'', JString ''4567'']),
                           (''/proj'', JArray [JString (hashOf blob_d), JString (hashOf blob_c),
                                                JString (hashOf blob_b), JString (hashOf blob_a)])])\<rparr>"

chapter \<open>Properties\<close>

section \<open>Sets and maps of the host language\<close>

lemma set_Set_add: "set (Set_add s x) = insert x (set s)"
  by (auto simp: Set_add_def Set_has_def)

lemma distinct_Set_add: "distinct s \<Longrightarrow> distinct (Set_add s x)"
  by (simp add: Set_add_def Set_has_def)

lemma fold_Set_add:
  "set (fold (\<lambda>x s. Set_add s x) xs acc) = set xs \<union> set acc
   \<and> (distinct acc \<longrightarrow> distinct (fold (\<lambda>x s. Set_add s x) xs acc))"
  by (induction xs arbitrary: acc) (auto simp: set_Set_add distinct_Set_add)

lemma set_new_Set: "set (new_Set xs) = set xs"
  using fold_Set_add [of xs "[]"] by (simp add: new_Set_def)

lemma distinct_new_Set: "distinct (new_Set xs)"
  using fold_Set_add [of xs "[]"] by (simp add: new_Set_def)



section \<open>Diff correctness\<close>

text \<open>
  Claim C1. For every stored hash list \<open>prev\<close> and every blob list, with
  \<open>S_prev\<close> the stored set and \<open>S_curr\<close> the set of freshly computed hashes, the diff
  step computes \<open>unchanged = S_prev \<inter> S_curr\<close> and \<open>new = S_curr - S_prev\<close>; the two
  parts cover \<open>S_curr\<close> exactly, are disjoint, and neither lists a hash twice.
\<close>

theorem diff_correct:
  "set (unchangedHashes (new_Set prev) (currentHashes blobs))
     = set prev \<inter> set (currentHashes blobs)
   \<and> set (newHashes (new_Set prev) (currentHashes blobs))
     = set (currentHashes blobs) - set prev
   \<and> set (unchangedHashes (new_Set prev) (currentHashes blobs))
       \<union> set (newHashes (new_Set prev) (currentHashes blobs))
     = set (currentHashes blobs)
   \<and> set (unchangedHashes (new_Set prev) (currentHashes blobs))
       \<inter> set (newHashes (new_Set prev) (currentHashes blobs)) = {}
   \<and> distinct (unchangedHashes (new_Set prev) (currentHashes blobs))
   \<and> distinct (newHashes (new_Set prev) (currentHashes blobs))"
  by (auto simp: unchangedHashes_def newHashes_def set_new_Set distinct_new_Set Set_has_def)

section \<open>Content hasher\<close>

lemma length_sha256_round: "length s = 8 \<Longrightarrow> length (sha256_round kw s) = 8"
proof -
  assume "length s = 8"
  then obtain a b c d e f g h where s: "s = [a, b, c, d, e, f, g, h]"
    by (auto simp: length_Suc_conv numeral_eq_Suc)
  obtain k w where kw: "kw = (k, w)" by (cases kw)
  show ?thesis by (simp add: s kw Let_def)
qed

lemma length_fold_round: "length s = 8 \<Longrightarrow> length (fold sha256_round kws s) = 8"
  by (induction kws arbitrary: s) (simp_all add: length_sha256_round)

lemma length_sha256_block: "length hs = 8 \<Longrightarrow> length (sha256_block hs ws) = 8"
  by (simp add: sha256_block_def length_fold_round)

lemma length_sha256_blocks: "length hs = 8 \<Longrightarrow> length (sha256_blocks hs ws) = 8"
proof (induction hs ws rule: sha256_blocks.induct)
  case (1 hs ws)
  then show ?case
    by (subst sha256_blocks.simps) (simp add: length_sha256_block del: sha256_blocks.simps)
qed

lemma length_sha256: "length (sha256 bs) = 8"
  unfolding sha256_def by (rule length_sha256_blocks) (simp add: sha256_H0_def)

lemma length_hex_u32: "length (hex_u32 w) = 8"
  by (simp add: hex_u32_def)

lemma length_concat_const:
  "(\<And>x. x \<in> set xs \<Longrightarrow> length (f x) = k) \<Longrightarrow> length (concat (map f xs)) = k * length xs"
  by (induction xs) simp_all

lemma length_sha256_hex: "length (sha256_hex s) = 64"
  by (simp add: sha256_hex_def length_concat_const [where k = 8] length_hex_u32 length_sha256)

lemma hex_digit_mem: "hex_digit d \<in> set ''0123456789abcdef''"
  unfolding hex_digit_def by (rule nth_mem) simp

lemma set_hex_u32: "set (hex_u32 w) \<subseteq> set ''0123456789abcdef''"
  using hex_digit_mem by (auto simp: hex_u32_def simp del: set_simps)

lemma set_sha256_hex: "set (sha256_hex s) \<subseteq> set ''0123456789abcdef''"
  using set_hex_u32 by (auto simp: sha256_hex_def simp del: set_simps)

lemma calculateHash_concat: "calculateHash p c = sha256_hex (p @ c)"
  by (simp add: calculateHash_def createHash_sha256_def update_def digest_hex_def)

text \<open>
  Claim C6, as amended. \<open>calculateHash\<close> is a function of the concatenation of path and
  content alone: its result is the SHA-256 digest of \<open>path @ content\<close>, rendered as 64
  lower-case hexadecimal characters, so hashing the same pair twice gives the same
  identifier, and two pairs with the same concatenation receive the same identifier
  even when both their paths and their contents differ.
\<close>

theorem hash_of_concatenation:
  "calculateHash p c = sha256_hex (p @ c)
   \<and> length (calculateHash p c) = 64
   \<and> set (calculateHash p c) \<subseteq> set ''0123456789abcdef''
   \<and> (p @ c = p' @ c' \<longrightarrow> calculateHash p c = calculateHash p' c')"
  by (simp add: calculateHash_concat length_sha256_hex set_sha256_hex del: set_simps)

theorem hash_of_concatenation_witness:
  "''src/a.ts'' @ ''x'' = ''src/a.t'' @ ''sx''
   \<and> calculateHash ''src/a.ts'' ''x'' = calculateHash ''src/a.t'' ''sx''
   \<and> length (calculateHash ''src/a.ts'' ''x'') = 64"
proof -
  have eq: "''src/a.ts'' @ ''x'' = ''src/a.t'' @ ''sx''" by simp
  from hash_of_concatenation [of "''src/a.ts''" "''x''" "''src/a.t''" "''sx''"] eq
  show ?thesis by blast
qed

text \<open>
  The pairs \<open>(ab, c)\<close> and \<open>(a, bc)\<close> differ in path and in content and hash alike: the
  hasher is fed the path and then the content with nothing between them.
\<close>

theorem hash_collision_counterexample:
  "''ab'' \<noteq> ''a'' \<and> ''c'' \<noteq> ''bc''
   \<and> calculateHash ''ab'' ''c'' = calculateHash ''a'' ''bc''"
  by (simp add: calculateHash_concat)

section \<open>The digests of four small files\<close>

text \<open>
  SHA-256 evaluated on four inputs of one block each, step by step: the padded block,
  the message schedule, the 64 rounds four at a time, the digest words and their
  hexadecimal text.
\<close>

lemma schedule_numeral:
  "schedule (numeral k) w =
     schedule (pred_numeral k)
       (w @ [ssig1 (w ! (length w - 2)) + w ! (length w - 7)
             + ssig0 (w ! (length w - 15)) + w ! (length w - 16)])"
  by (simp add: numeral_eq_Suc)

lemma schedule_add: "schedule (a + b) w = schedule b (schedule a w)"
  by (induction a arbitrary: w) simp_all

lemma schedule_48: "schedule 48 w = schedule 16 (schedule 16 (schedule 16 w))"
proof -
  have "schedule (16 + (16 + 16)) w = schedule 16 (schedule 16 (schedule 16 w))"
    by (simp only: schedule_add)
  then show ?thesis by simp
qed

lemma fold_sha256_round_step: "fold sha256_round (x # xs) s = fold sha256_round xs (sha256_round x s)"
  by simp

lemma sha256_one_block:
  assumes "length ws = 16"
  shows "sha256_blocks hs ws = sha256_block hs ws"
proof -
  have "sha256_blocks hs ws = sha256_blocks (sha256_block hs (take 16 ws)) (drop 16 ws)"
    using assms by (subst sha256_blocks.simps) simp
  also have "\<dots> = sha256_blocks (sha256_block hs ws) []"
    using assms by simp
  also have "\<dots> = sha256_block hs ws"
    by (subst sha256_blocks.simps) simp
  finally show ?thesis .
qed

lemma replicate_numeral: "replicate (numeral k) x = x # replicate (pred_numeral k) x"
  by (simp add: numeral_eq_Suc)

subsection \<open>\<open>a.ts\<close> with content \<open>let a = 1\<close>\<close>

lemma digest_a_block:
  "be_words (sha256_pad (map of_char ''a.tslet a = 1''))
   = [1630434419, 1818588192, 1629502752, 830472192, 0, 0, 0, 0, 0, 0, 0, 0, 0, 0, 0, 104]"
  by (simp add: sha256_pad_def be_bytes_def upt_conv_Cons replicate_numeral)

lemma digest_a_schedule_steps:
  "schedule 16
     [1630434419, 1818588192, 1629502752, 830472192, 0, 0, 0, 0, 0, 0, 0, 0, 0, 0, 0, 104]
   = [1630434419, 1818588192, 1629502752, 830472192, 0, 0, 0, 0, 0, 0, 0, 0, 0, 0, 0, 104,
     1904931816, 2957824950, 2399706568, 620862747, 1568576578, 4247238215, 2562603805, 2673818818,
     2333615228, 149383507, 999600129, 3070259447, 3409319387, 3473352857, 937266759, 1588370565]"
  "schedule 16
     [1630434419, 1818588192, 1629502752, 830472192, 0, 0, 0, 0, 0, 0, 0, 0, 0, 0, 0, 104,
     1904931816, 2957824950, 2399706568, 620862747, 1568576578, 4247238215, 2562603805, 2673818818,
     2333615228, 149383507, 999600129, 3070259447, 3409319387, 3473352857, 937266759, 1588370565]
   = [1630434419, 1818588192, 1629502752, 830472192, 0, 0, 0, 0, 0, 0, 0, 0, 0, 0, 0, 104,
     1904931816, 2957824950, 2399706568, 620862747, 1568576578, 4247238215, 2562603805, 2673818818,
     2333615228, 149383507, 999600129, 3070259447, 3409319387, 3473352857, 937266759, 1588370565,
     1088264051, 1899254939, 352192424, 3137341342, 1836661545, 3740888233, 205232949, 1570592046,
     950371412, 1192289448, 1324829957, 3201365968, 3652832893, 730236800, 2592848399, 3050564578]"
  "schedule 16
     [1630434419, 1818588192, 1629502752, 830472192, 0, 0, 0, 0, 0, 0, 0, 0, 0, 0, 0, 104,
     1904931816, 2957824950, 2399706568, 620862747, 1568576578, 4247238215, 2562603805, 2673818818,
     2333615228, 149383507, 999600129, 3070259447, 3409319387, 3473352857, 937266759, 1588370565,
     1088264051, 1899254939, 352192424, 3137341342, 1836661545, 3740888233, 205232949, 1570592046,
     950371412, 1192289448, 1324829957, 3201365968, 3652832893, 730236800, 2592848399, 3050564578]
   = [1630434419, 1818588192, 1629502752, 830472192, 0, 0, 0, 0, 0, 0, 0, 0, 0, 0, 0, 104,
     1904931816, 2957824950, 2399706568, 620862747, 1568576578, 4247238215, 2562603805, 2673818818,
     2333615228, 149383507, 999600129, 3070259447, 3409319387, 3473352857, 937266759, 1588370565,
     1088264051, 1899254939, 352192424, 3137341342, 1836661545, 3740888233, 205232949, 1570592046,
     950371412, 1192289448, 1324829957, 3201365968, 3652832893, 730236800, 2592848399, 3050564578,
     1613846412, 472405006, 2163236351, 3338349548, 3517478924, 4153521022, 4152764286, 2083316667,
     2374060468, 2243523033, 789954740, 3129690192, 3462049841, 3540065883, 1309629939, 827120015]"
  by (simp_all add: schedule_numeral ssig0_def ssig1_def rotr_def)

lemma digest_a_schedule:
  "schedule 48
     [1630434419, 1818588192, 1629502752, 830472192, 0, 0, 0, 0, 0, 0, 0, 0, 0, 0, 0, 104]
   = [1630434419, 1818588192, 1629502752, 830472192, 0, 0, 0, 0, 0, 0, 0, 0, 0, 0, 0, 104,
     1904931816, 2957824950, 2399706568, 620862747, 1568576578, 4247238215, 2562603805, 2673818818,
     2333615228, 149383507, 999600129, 3070259447, 3409319387, 3473352857, 937266759, 1588370565,
     1088264051, 1899254939, 352192424, 3137341342, 1836661545, 3740888233, 205232949, 1570592046,
     950371412, 1192289448, 1324829957, 3201365968, 3652832893, 730236800, 2592848399, 3050564578,
     1613846412, 472405006, 2163236351, 3338349548, 3517478924, 4153521022, 4152764286, 2083316667,
     2374060468, 2243523033, 789954740, 3129690192, 3462049841, 3540065883, 1309629939, 827120015]"
  by (simp only: schedule_48 digest_a_schedule_steps)

lemma digest_a_round_steps:
  "fold sha256_round
     [(1116352408, 1630434419), (1899447441, 1818588192), (3049323471, 1629502752), (3921009573,
     830472192)]
     [1779033703, 3144134277, 1013904242, 2773480762, 1359893119, 2600822924, 528734635, 1541459225]
   = [1819601986, 1724923325, 1149223195, 1563884736, 2640185499, 2939570518, 3674893781, 4193670933]"
  "fold sha256_round
     [(961987163, 0), (1508970993, 0), (2453635748, 0), (2870763221, 0)]
     [1819601986, 1724923325, 1149223195, 1563884736, 2640185499, 2939570518, 3674893781, 4193670933]
   = [3112074887, 2743914810, 3640961539, 1671062292, 804504849, 3964679988, 1290414194, 832381363]"
  "fold sha256_round
     [(3624381080, 0), (310598401, 0), (607225278, 0), (1426881987, 0)]
     [3112074887, 2743914810, 3640961539, 1671062292, 804504849, 3964679988, 1290414194, 832381363]
   = [972988901, 3409324660, 3343092477, 840628338, 1990751736, 2471678201, 3358742219, 4178581196]"
  "fold sha256_round
     [(1925078388, 0), (2162078206, 0), (2614888103, 0), (3248222580, 104)]
     [972988901, 3409324660, 3343092477, 840628338, 1990751736, 2471678201, 3358742219, 4178581196]
   = [3468080307, 3192202956, 1511589184, 2551705213, 1630578409, 415898347, 1037375624, 1122650255]"
  "fold sha256_round
     [(3835390401, 1904931816), (4022224774, 2957824950), (264347078, 2399706568), (604807628,
     620862747)]
     [3468080307, 3192202956, 1511589184, 2551705213, 1630578409, 415898347, 1037375624, 1122650255]
   = [496364800, 1858458814, 1219131404, 29855171, 2054408811, 1757107349, 1671231294, 787038173]"
  "fold sha256_round
     [(770255983, 1568576578), (1249150122, 4247238215), (1555081692, 2562603805), (1996064986,
     2673818818)]
     [496364800, 1858458814, 1219131404, 29855171, 2054408811, 1757107349, 1671231294, 787038173]
   = [2271944193, 2916515915, 3438824302, 2194390581, 1694277761, 2254215099, 1190565739, 4282103891]"
  "fold sha256_round
     [(2554220882, 2333615228), (2821834349, 149383507), (2952996808, 999600129), (3210313671,
     3070259447)]
     [2271944193, 2916515915, 3438824302, 2194390581, 1694277761, 2254215099, 1190565739, 4282103891]
   = [3041071853, 2340999043, 2646469430, 1619589312, 4117029860, 2856192122, 3341378158, 397128165]"
  "fold sha256_round
     [(3336571891, 3409319387), (3584528711, 3473352857), (113926993, 937266759), (338241895,
     1588370565)]
     [3041071853, 2340999043, 2646469430, 1619589312, 4117029860, 2856192122, 3341378158, 397128165]
   = [3817487110, 2386071219, 2701113977, 1026180515, 2020221680, 523975533, 913140030, 162699846]"
  "fold sha256_round
     [(666307205, 1088264051), (773529912, 1899254939), (1294757372, 352192424), (1396182291,
     3137341342)]
     [3817487110, 2386071219, 2701113977, 1026180515, 2020221680, 523975533, 913140030, 162699846]
   = [1943764099, 691399779, 304288811, 644532464, 3059494163, 2881710746, 666894847, 2023803714]"
  "fold sha256_round
     [(1695183700, 1836661545), (1986661051, 3740888233), (2177026350, 205232949), (2456956037,
     1570592046)]
     [1943764099, 691399779, 304288811, 644532464, 3059494163, 2881710746, 666894847, 2023803714]
   = [3653594693, 3204671376, 2561628930, 972070398, 1965172787, 3941260441, 3437650478, 3624443543]"
  "fold sha256_round
     [(2730485921, 950371412), (2820302411, 1192289448), (3259730800, 1324829957), (3345764771,
     3201365968)]
     [3653594693, 3204671376, 2561628930, 972070398, 1965172787, 3941260441, 3437650478, 3624443543]
   = [3780550033, 3510156007, 22152333, 2725280997, 2014353081, 3804034556, 2424133271, 821242118]"
  "fold sha256_round
     [(3516065817, 3652832893), (3600352804, 730236800), (4094571909, 2592848399), (275423344,
     3050564578)]
     [3780550033, 3510156007, 22152333, 2725280997, 2014353081, 3804034556, 2424133271, 821242118]
   = [434813397, 2142654484, 2234640819, 2269206568, 771868397, 1613140819, 3745417090, 2578599475]"
  "fold sha256_round
     [(430227734, 1613846412), (506948616, 472405006), (659060556, 2163236351), (883997877,
     3338349548)]
     [434813397, 2142654484, 2234640819, 2269206568, 771868397, 1613140819, 3745417090, 2578599475]
   = [640493032, 355962151, 4151421435, 2930625192, 379617137, 1616901396, 1932531100, 4127650804]"
  "fold sha256_round
     [(958139571, 3517478924), (1322822218, 4153521022), (1537002063, 4152764286), (1747873779,
     2083316667)]
     [640493032, 355962151, 4151421435, 2930625192, 379617137, 1616901396, 1932531100, 4127650804]
   = [2305218487, 3354935545, 190399632, 2780258878, 2422666244, 1924013477, 2021898683, 2328995440]"
  "fold sha256_round
     [(1955562222, 2374060468), (2024104815, 2243523033), (2227730452, 789954740), (2361852424,
     3129690192)]
     [2305218487, 3354935545, 190399632, 2780258878, 2422666244, 1924013477, 2021898683, 2328995440]
   = [1766477426, 2624691945, 357501068, 4150692806, 119437590, 1374813262, 3749742349, 1290438741]"
  "fold sha256_round
     [(2428436474, 3462049841), (2756734187, 3540065883), (3204031479, 1309629939), (3329325298,
     827120015)]
     [1766477426, 2624691945, 357501068, 4150692806, 119437590, 1374813262, 3749742349, 1290438741]
   = [250940254, 1073114079, 4205995464, 1505257226, 3017922635, 2301703283, 1726489219, 1927009149]"
  by (simp_all add: Let_def bsig0_def bsig1_def Ch_def Maj_def rotr_def)

lemma digest_a_rounds:
  "fold sha256_round
     (zip sha256_K
        [1630434419, 1818588192, 1629502752, 830472192, 0, 0, 0, 0, 0, 0, 0, 0, 0, 0, 0, 104,
        1904931816, 2957824950, 2399706568, 620862747, 1568576578, 4247238215, 2562603805, 2673818818,
        2333615228, 149383507, 999600129, 3070259447, 3409319387, 3473352857, 937266759, 1588370565,
        1088264051, 1899254939, 352192424, 3137341342, 1836661545, 3740888233, 205232949, 1570592046,
        950371412, 1192289448, 1324829957, 3201365968, 3652832893, 730236800, 2592848399, 3050564578,
        1613846412, 472405006, 2163236351, 3338349548, 3517478924, 4153521022, 4152764286, 2083316667,
        2374060468, 2243523033, 789954740, 3129690192, 3462049841, 3540065883, 1309629939, 827120015])
     sha256_H0
   = [250940254, 1073114079, 4205995464, 1505257226, 3017922635, 2301703283, 1726489219, 1927009149]"
proof -
  have "zip sha256_K
        ([1630434419, 1818588192, 1629502752, 830472192, 0, 0, 0, 0, 0, 0, 0, 0, 0, 0, 0, 104,
        1904931816, 2957824950, 2399706568, 620862747, 1568576578, 4247238215, 2562603805, 2673818818,
        2333615228, 149383507, 999600129, 3070259447, 3409319387, 3473352857, 937266759, 1588370565,
        1088264051, 1899254939, 352192424, 3137341342, 1836661545, 3740888233, 205232949, 1570592046,
        950371412, 1192289448, 1324829957, 3201365968, 3652832893, 730236800, 2592848399, 3050564578,
        1613846412, 472405006, 2163236351, 3338349548, 3517478924, 4153521022, 4152764286, 2083316667,
        2374060468, 2243523033, 789954740, 3129690192, 3462049841, 3540065883, 1309629939, 827120015] :: u32 list)
    = [(1116352408, 1630434419), (1899447441, 1818588192), (3049323471, 1629502752), (3921009573,
        830472192)]
      @ [(961987163, 0), (1508970993, 0), (2453635748, 0), (2870763221, 0)]
      @ [(3624381080, 0), (310598401, 0), (607225278, 0), (1426881987, 0)]
      @ [(1925078388, 0), (2162078206, 0), (2614888103, 0), (3248222580, 104)]
      @ [(3835390401, 1904931816), (4022224774, 2957824950), (264347078, 2399706568), (604807628,
        620862747)]
      @ [(770255983, 1568576578), (1249150122, 4247238215), (1555081692, 2562603805), (1996064986,
        2673818818)]
      @ [(2554220882, 2333615228), (2821834349, 149383507), (2952996808, 999600129), (3210313671,
        3070259447)]
      @ [(3336571891, 3409319387), (3584528711, 3473352857), (113926993, 937266759), (338241895,
        1588370565)]
      @ [(666307205, 1088264051), (773529912, 1899254939), (1294757372, 352192424), (1396182291,
        3137341342)]
      @ [(1695183700, 1836661545), (1986661051, 3740888233), (2177026350, 205232949), (2456956037,
        1570592046)]
      @ [(2730485921, 950371412), (2820302411, 1192289448), (3259730800, 1324829957), (3345764771,
        3201365968)]
      @ [(3516065817, 3652832893), (3600352804, 730236800), (4094571909, 2592848399), (275423344,
        3050564578)]
      @ [(430227734, 1613846412), (506948616, 472405006), (659060556, 2163236351), (883997877,
        3338349548)]
      @ [(958139571, 3517478924), (1322822218, 4153521022), (1537002063, 4152764286), (1747873779,
        2083316667)]
      @ [(1955562222, 2374060468), (2024104815, 2243523033), (2227730452, 789954740), (2361852424,
        3129690192)]
      @ [(2428436474, 3462049841), (2756734187, 3540065883), (3204031479, 1309629939), (3329325298,
        827120015)]"
    by (simp add: sha256_K_def)
  then show ?thesis
    by (simp only: fold_append o_apply sha256_H0_def digest_a_round_steps)
qed

lemma digest_a_words:
  "sha256 (map of_char ''a.tslet a = 1'')
   = [2029973957, 4217248356, 924932410, 4278737988, 82848458, 607558911, 2255223854, 3468468374]"
  unfolding sha256_def digest_a_block
  by (simp add: sha256_one_block sha256_block_def digest_a_schedule digest_a_rounds)
     (simp add: sha256_H0_def)

lemma digest_a:
  "calculateHash ''a.ts'' ''let a = 1''
   = ''78fef1c5fb5e1a643721593aff085c4404f02aca24369cff866bfc2ecebca096''"
  unfolding calculateHash_concat sha256_hex_def
  by (simp only: append.simps digest_a_words) (simp add: hex_u32_def hex_digit_def upt_conv_Cons)

subsection \<open>\<open>b.ts\<close> with content \<open>let b = 2\<close>\<close>

lemma digest_b_block:
  "be_words (sha256_pad (map of_char ''b.tslet b = 2''))
   = [1647211635, 1818588192, 1646279968, 847249408, 0, 0, 0, 0, 0, 0, 0, 0, 0, 0, 0, 104]"
  by (simp add: sha256_pad_def be_bytes_def upt_conv_Cons replicate_numeral)

lemma digest_b_schedule_steps:
  "schedule 16
     [1647211635, 1818588192, 1646279968, 847249408, 0, 0, 0, 0, 0, 0, 0, 0, 0, 0, 0, 104]
   = [1647211635, 1818588192, 1646279968, 847249408, 0, 0, 0, 0, 0, 0, 0, 0, 0, 0, 0, 104,
     1921709032, 2959528822, 2414534504, 3866728331, 880454847, 4178383254, 63267457, 2639451339,
     3447137336, 3234253086, 1562491495, 4061607560, 3816103664, 2171553029, 2584446315, 2043127587]"
  "schedule 16
     [1647211635, 1818588192, 1646279968, 847249408, 0, 0, 0, 0, 0, 0, 0, 0, 0, 0, 0, 104,
     1921709032, 2959528822, 2414534504, 3866728331, 880454847, 4178383254, 63267457, 2639451339,
     3447137336, 3234253086, 1562491495, 4061607560, 3816103664, 2171553029, 2584446315, 2043127587]
   = [1647211635, 1818588192, 1646279968, 847249408, 0, 0, 0, 0, 0, 0, 0, 0, 0, 0, 0, 104,
     1921709032, 2959528822, 2414534504, 3866728331, 880454847, 4178383254, 63267457, 2639451339,
     3447137336, 3234253086, 1562491495, 4061607560, 3816103664, 2171553029, 2584446315, 2043127587,
     893498748, 2888621496, 3707771541, 2465688815, 986647868, 1237746787, 375802885, 108953683,
     17471196, 3648062323, 3419659664, 2296152280, 2364703272, 2371515524, 1375737568, 2204203055]"
  "schedule 16
     [1647211635, 1818588192, 1646279968, 847249408, 0, 0, 0, 0, 0, 0, 0, 0, 0, 0, 0, 104,
     1921709032, 2959528822, 2414534504, 3866728331, 880454847, 4178383254, 63267457, 2639451339,
     3447137336, 3234253086, 1562491495, 4061607560, 3816103664, 2171553029, 2584446315, 2043127587,
     893498748, 2888621496, 3707771541, 2465688815, 986647868, 1237746787, 375802885, 108953683,
     17471196, 3648062323, 3419659664, 2296152280, 2364703272, 2371515524, 1375737568, 2204203055]
   = [1647211635, 1818588192, 1646279968, 847249408, 0, 0, 0, 0, 0, 0, 0, 0, 0, 0, 0, 104,
     1921709032, 2959528822, 2414534504, 3866728331, 880454847, 4178383254, 63267457, 2639451339,
     3447137336, 3234253086, 1562491495, 4061607560, 3816103664, 2171553029, 2584446315, 2043127587,
     893498748, 2888621496, 3707771541, 2465688815, 986647868, 1237746787, 375802885, 108953683,
     17471196, 3648062323, 3419659664, 2296152280, 2364703272, 2371515524, 1375737568, 2204203055,
     1813988667, 1106450673, 3326042051, 3418641446, 2063934916, 3628935507, 3605275764, 3253178791,
     2512333992, 2853286750, 2344121478, 3554492735, 532807520, 1009226798, 3852775963, 4224942707]"
  by (simp_all add: schedule_numeral ssig0_def ssig1_def rotr_def)

lemma digest_b_schedule:
  "schedule 48
     [1647211635, 1818588192, 1646279968, 847249408, 0, 0, 0, 0, 0, 0, 0, 0, 0, 0, 0, 104]
   = [1647211635, 1818588192, 1646279968, 847249408, 0, 0, 0, 0, 0, 0, 0, 0, 0, 0, 0, 104,
     1921709032, 2959528822, 2414534504, 3866728331, 880454847, 4178383254, 63267457, 2639451339,
     3447137336, 3234253086, 1562491495, 4061607560, 3816103664, 2171553029, 2584446315, 2043127587,
     893498748, 2888621496, 3707771541, 2465688815, 986647868, 1237746787, 375802885, 108953683,
     17471196, 3648062323, 3419659664, 2296152280, 2364703272, 2371515524, 1375737568, 2204203055,
     1813988667, 1106450673, 3326042051, 3418641446, 2063934916, 3628935507, 3605275764, 3253178791,
     2512333992, 2853286750, 2344121478, 3554492735, 532807520, 1009226798, 3852775963, 4224942707]"
  by (simp only: schedule_48 digest_b_schedule_steps)

lemma digest_b_round_steps:
  "fold sha256_round
     [(1116352408, 1647211635), (1899447441, 1818588192), (3049323471, 1646279968), (3921009573,
     847249408)]
     [1779033703, 3144134277, 1013904242, 2773480762, 1359893119, 2600822924, 528734635, 1541459225]
   = [2270779775, 2452293127, 3242940712, 1580661952, 2794034517, 789985559, 1494617558, 4210448149]"
  "fold sha256_round
     [(961987163, 0), (1508970993, 0), (2453635748, 0), (2870763221, 0)]
     [2270779775, 2452293127, 3242940712, 1580661952, 2794034517, 789985559, 1494617558, 4210448149]
   = [156721881, 3563863665, 1433000584, 1055030386, 98292284, 3904565061, 2591110725, 3397291387]"
  "fold sha256_round
     [(3624381080, 0), (310598401, 0), (607225278, 0), (1426881987, 0)]
     [156721881, 3563863665, 1433000584, 1055030386, 98292284, 3904565061, 2591110725, 3397291387]
   = [2642370921, 1838306235, 1941863337, 4131674505, 525292239, 1448964044, 1412126655, 3600966906]"
  "fold sha256_round
     [(1925078388, 0), (2162078206, 0), (2614888103, 0), (3248222580, 104)]
     [2642370921, 1838306235, 1941863337, 4131674505, 525292239, 1448964044, 1412126655, 3600966906]
   = [816342657, 730699329, 3303467083, 1901774613, 2644886615, 2598000253, 2875830757, 1481250593]"
  "fold sha256_round
     [(3835390401, 1921709032), (4022224774, 2959528822), (264347078, 2414534504), (604807628,
     3866728331)]
     [816342657, 730699329, 3303467083, 1901774613, 2644886615, 2598000253, 2875830757, 1481250593]
   = [2889987026, 1273643348, 4154963461, 1795584392, 3219524391, 2964527538, 29180370, 3791305275]"
  "fold sha256_round
     [(770255983, 880454847), (1249150122, 4178383254), (1555081692, 63267457), (1996064986,
     2639451339)]
     [2889987026, 1273643348, 4154963461, 1795584392, 3219524391, 2964527538, 29180370, 3791305275]
   = [4002100163, 3686254545, 2794399886, 559270953, 1605939176, 2984745947, 4140318754, 1764640277]"
  "fold sha256_round
     [(2554220882, 3447137336), (2821834349, 3234253086), (2952996808, 1562491495), (3210313671,
     4061607560)]
     [4002100163, 3686254545, 2794399886, 559270953, 1605939176, 2984745947, 4140318754, 1764640277]
   = [3224602476, 1956466364, 2222031729, 954811332, 1539797156, 3872296331, 2067849446, 574436631]"
  "fold sha256_round
     [(3336571891, 3816103664), (3584528711, 2171553029), (113926993, 2584446315), (338241895,
     2043127587)]
     [3224602476, 1956466364, 2222031729, 954811332, 1539797156, 3872296331, 2067849446, 574436631]
   = [3445025075, 1229920941, 2911388380, 526250624, 3303662621, 340170842, 4190009711, 3466484609]"
  "fold sha256_round
     [(666307205, 893498748), (773529912, 2888621496), (1294757372, 3707771541), (1396182291,
     2465688815)]
     [3445025075, 1229920941, 2911388380, 526250624, 3303662621, 340170842, 4190009711, 3466484609]
   = [415804419, 1254764405, 2669705683, 2550420437, 1249513658, 1314989892, 2575294019, 145021898]"
  "fold sha256_round
     [(1695183700, 986647868), (1986661051, 1237746787), (2177026350, 375802885), (2456956037,
     108953683)]
     [415804419, 1254764405, 2669705683, 2550420437, 1249513658, 1314989892, 2575294019, 145021898]
   = [2488545950, 1875714713, 4245911641, 3870307129, 1104763160, 3449604220, 817620006, 3746658453]"
  "fold sha256_round
     [(2730485921, 17471196), (2820302411, 3648062323), (3259730800, 3419659664), (3345764771,
     2296152280)]
     [2488545950, 1875714713, 4245911641, 3870307129, 1104763160, 3449604220, 817620006, 3746658453]
   = [1351506205, 4247754762, 2315139343, 33275311, 2573643298, 404128127, 3175359000, 2318068216]"
  "fold sha256_round
     [(3516065817, 2364703272), (3600352804, 2371515524), (4094571909, 1375737568), (275423344,
     2204203055)]
     [1351506205, 4247754762, 2315139343, 33275311, 2573643298, 404128127, 3175359000, 2318068216]
   = [894945229, 1140544174, 3771739940, 2708732954, 3140235326, 1588121297, 4062507517, 605305155]"
  "fold sha256_round
     [(430227734, 1813988667), (506948616, 1106450673), (659060556, 3326042051), (883997877,
     3418641446)]
     [894945229, 1140544174, 3771739940, 2708732954, 3140235326, 1588121297, 4062507517, 605305155]
   = [1256147105, 3232524420, 1151408836, 4246438596, 4125030762, 1278395843, 1756064643, 278448026]"
  "fold sha256_round
     [(958139571, 2063934916), (1322822218, 3628935507), (1537002063, 3605275764), (1747873779,
     3253178791)]
     [1256147105, 3232524420, 1151408836, 4246438596, 4125030762, 1278395843, 1756064643, 278448026]
   = [1965681924, 3528762446, 2397056173, 640646545, 1966245913, 4255831584, 2010985577, 2013181400]"
  "fold sha256_round
     [(1955562222, 2512333992), (2024104815, 2853286750), (2227730452, 2344121478), (2361852424,
     3554492735)]
     [1965681924, 3528762446, 2397056173, 640646545, 1966245913, 4255831584, 2010985577, 2013181400]
   = [529469696, 2420434131, 2697207575, 2738481791, 592779867, 3229563556, 3754934682, 539686954]"
  "fold sha256_round
     [(2428436474, 532807520), (2756734187, 1009226798), (3204031479, 3852775963), (3329325298,
     4224942707)]
     [529469696, 2420434131, 2697207575, 2738481791, 592779867, 3229563556, 3754934682, 539686954]
   = [1300079897, 3953635343, 1159009181, 2136683448, 429847532, 2196531183, 3618515290, 3727282398]"
  by (simp_all add: Let_def bsig0_def bsig1_def Ch_def Maj_def rotr_def)

lemma digest_b_rounds:
  "fold sha256_round
     (zip sha256_K
        [1647211635, 1818588192, 1646279968, 847249408, 0, 0, 0, 0, 0, 0, 0, 0, 0, 0, 0, 104,
        1921709032, 2959528822, 2414534504, 3866728331, 880454847, 4178383254, 63267457, 2639451339,
        3447137336, 3234253086, 1562491495, 4061607560, 3816103664, 2171553029, 2584446315, 2043127587,
        893498748, 2888621496, 3707771541, 2465688815, 986647868, 1237746787, 375802885, 108953683,
        17471196, 3648062323, 3419659664, 2296152280, 2364703272, 2371515524, 1375737568, 2204203055,
        1813988667, 1106450673, 3326042051, 3418641446, 2063934916, 3628935507, 3605275764, 3253178791,
        2512333992, 2853286750, 2344121478, 3554492735, 532807520, 1009226798, 3852775963, 4224942707])
     sha256_H0
   = [1300079897, 3953635343, 1159009181, 2136683448, 429847532, 2196531183, 3618515290, 3727282398]"
proof -
  have "zip sha256_K
        ([1647211635, 1818588192, 1646279968, 847249408, 0, 0, 0, 0, 0, 0, 0, 0, 0, 0, 0, 104,
        1921709032, 2959528822, 2414534504, 3866728331, 880454847, 4178383254, 63267457, 2639451339,
        3447137336, 3234253086, 1562491495, 4061607560, 3816103664, 2171553029, 2584446315, 2043127587,
        893498748, 2888621496, 3707771541, 2465688815, 986647868, 1237746787, 375802885, 108953683,
        17471196, 3648062323, 3419659664, 2296152280, 2364703272, 2371515524, 1375737568, 2204203055,
        1813988667, 1106450673, 3326042051, 3418641446, 2063934916, 3628935507, 3605275764, 3253178791,
        2512333992, 2853286750, 2344121478, 3554492735, 532807520, 1009226798, 3852775963, 4224942707] :: u32 list)
    = [(1116352408, 1647211635), (1899447441, 1818588192), (3049323471, 1646279968), (3921009573,
        847249408)]
      @ [(961987163, 0), (1508970993, 0), (2453635748, 0), (2870763221, 0)]
      @ [(3624381080, 0), (310598401, 0), (607225278, 0), (1426881987, 0)]
      @ [(1925078388, 0), (2162078206, 0), (2614888103, 0), (3248222580, 104)]
      @ [(3835390401, 1921709032), (4022224774, 2959528822), (264347078, 2414534504), (604807628,
        3866728331)]
      @ [(770255983, 880454847), (1249150122, 4178383254), (1555081692, 63267457), (1996064986,
        2639451339)]
      @ [(2554220882, 3447137336), (2821834349, 3234253086), (2952996808, 1562491495), (3210313671,
        4061607560)]
      @ [(3336571891, 3816103664), (3584528711, 2171553029), (113926993, 2584446315), (338241895,
        2043127587)]
      @ [(666307205, 893498748), (773529912, 2888621496), (1294757372, 3707771541), (1396182291,
        2465688815)]
      @ [(1695183700, 986647868), (1986661051, 1237746787), (2177026350, 375802885), (2456956037,
        108953683)]
      @ [(2730485921, 17471196), (2820302411, 3648062323), (3259730800, 3419659664), (3345764771,
        2296152280)]
      @ [(3516065817, 2364703272), (3600352804, 2371515524), (4094571909, 1375737568), (275423344,
        2204203055)]
      @ [(430227734, 1813988667), (506948616, 1106450673), (659060556, 3326042051), (883997877,
        3418641446)]
      @ [(958139571, 2063934916), (1322822218, 3628935507), (1537002063, 3605275764), (1747873779,
        3253178791)]
      @ [(1955562222, 2512333992), (2024104815, 2853286750), (2227730452, 2344121478), (2361852424,
        3554492735)]
      @ [(2428436474, 532807520), (2756734187, 1009226798), (3204031479, 3852775963), (3329325298,
        4224942707)]"
    by (simp add: sha256_K_def)
  then show ?thesis
    by (simp only: fold_append o_apply sha256_H0_def digest_b_round_steps)
qed

lemma digest_b_words:
  "sha256 (map of_char ''b.tslet b = 2'')
   = [3079113600, 2802802324, 2172913423, 615196914, 1789740651, 502386811, 4147249925, 973774327]"
  unfolding sha256_def digest_b_block
  by (simp add: sha256_one_block sha256_block_def digest_b_schedule digest_b_rounds)
     (simp add: sha256_H0_def)

lemma digest_b:
  "calculateHash ''b.ts'' ''let b = 2''
   = ''b7878b80a70f5e948184070f24ab28f26aad466b1df1d07bf73203053a0a9df7''"
  unfolding calculateHash_concat sha256_hex_def
  by (simp only: append.simps digest_b_words) (simp add: hex_u32_def hex_digit_def upt_conv_Cons)

subsection \<open>\<open>c.ts\<close> with content \<open>let c = 3\<close>\<close>

lemma digest_c_block:
  "be_words (sha256_pad (map of_char ''c.tslet c = 3''))
   = [1663988851, 1818588192, 1663057184, 864026624, 0, 0, 0, 0, 0, 0, 0, 0, 0, 0, 0, 104]"
  by (simp add: sha256_pad_def be_bytes_def upt_conv_Cons replicate_numeral)

lemma digest_c_schedule_steps:
  "schedule 16
     [1663988851, 1818588192, 1663057184, 864026624, 0, 0, 0, 0, 0, 0, 0, 0, 0, 0, 0, 104]
   = [1663988851, 1818588192, 1663057184, 864026624, 0, 0, 0, 0, 0, 0, 0, 0, 0, 0, 0, 104,
     1938486248, 2961756982, 2429361928, 2807147617, 742484280, 3818205993, 2578449498, 3008634076,
     3003729701, 514210255, 850156053, 135999041, 2312750910, 2358945823, 1590231183, 379891833]"
  "schedule 16
     [1663988851, 1818588192, 1663057184, 864026624, 0, 0, 0, 0, 0, 0, 0, 0, 0, 0, 0, 104,
     1938486248, 2961756982, 2429361928, 2807147617, 742484280, 3818205993, 2578449498, 3008634076,
     3003729701, 514210255, 850156053, 135999041, 2312750910, 2358945823, 1590231183, 379891833]
   = [1663988851, 1818588192, 1663057184, 864026624, 0, 0, 0, 0, 0, 0, 0, 0, 0, 0, 0, 104,
     1938486248, 2961756982, 2429361928, 2807147617, 742484280, 3818205993, 2578449498, 3008634076,
     3003729701, 514210255, 850156053, 135999041, 2312750910, 2358945823, 1590231183, 379891833,
     2184236182, 4133833697, 3583928758, 1836807472, 3056918051, 3180814454, 1300749621, 2658020539,
     3526905453, 48720467, 393920031, 882544248, 3569902374, 1181230451, 400640757, 223029597]"
  "schedule 16
     [1663988851, 1818588192, 1663057184, 864026624, 0, 0, 0, 0, 0, 0, 0, 0, 0, 0, 0, 104,
     1938486248, 2961756982, 2429361928, 2807147617, 742484280, 3818205993, 2578449498, 3008634076,
     3003729701, 514210255, 850156053, 135999041, 2312750910, 2358945823, 1590231183, 379891833,
     2184236182, 4133833697, 3583928758, 1836807472, 3056918051, 3180814454, 1300749621, 2658020539,
     3526905453, 48720467, 393920031, 882544248, 3569902374, 1181230451, 400640757, 223029597]
   = [1663988851, 1818588192, 1663057184, 864026624, 0, 0, 0, 0, 0, 0, 0, 0, 0, 0, 0, 104,
     1938486248, 2961756982, 2429361928, 2807147617, 742484280, 3818205993, 2578449498, 3008634076,
     3003729701, 514210255, 850156053, 135999041, 2312750910, 2358945823, 1590231183, 379891833,
     2184236182, 4133833697, 3583928758, 1836807472, 3056918051, 3180814454, 1300749621, 2658020539,
     3526905453, 48720467, 393920031, 882544248, 3569902374, 1181230451, 400640757, 223029597,
     2702321337, 3973825608, 303438690, 1123833170, 3997909008, 166930716, 316996899, 61364832,
     487802861, 3468744909, 2062018400, 3928745638, 3575324054, 2742612850, 2059095145, 2167166487]"
  by (simp_all add: schedule_numeral ssig0_def ssig1_def rotr_def)

lemma digest_c_schedule:
  "schedule 48
     [1663988851, 1818588192, 1663057184, 864026624, 0, 0, 0, 0, 0, 0, 0, 0, 0, 0, 0, 104]
   = [1663988851, 1818588192, 1663057184, 864026624, 0, 0, 0, 0, 0, 0, 0, 0, 0, 0, 0, 104,
     1938486248, 2961756982, 2429361928, 2807147617, 742484280, 3818205993, 2578449498, 3008634076,
     3003729701, 514210255, 850156053, 135999041, 2312750910, 2358945823, 1590231183, 379891833,
     2184236182, 4133833697, 3583928758, 1836807472, 3056918051, 3180814454, 1300749621, 2658020539,
     3526905453, 48720467, 393920031, 882544248, 3569902374, 1181230451, 400640757, 223029597,
     2702321337, 3973825608, 303438690, 1123833170, 3997909008, 166930716, 316996899, 61364832,
     487802861, 3468744909, 2062018400, 3928745638, 3575324054, 2742612850, 2059095145, 2167166487]"
  by (simp only: schedule_48 digest_c_schedule_steps)

lemma digest_c_round_steps:
  "fold sha256_round
     [(1116352408, 1663988851), (1899447441, 1818588192), (3049323471, 1663057184), (3921009573,
     864026624)]
     [1779033703, 3144134277, 1013904242, 2773480762, 1359893119, 2600822924, 528734635, 1541459225]
   = [3062252239, 3290287156, 1107783972, 1597439168, 3001461791, 2971019483, 3641847254, 4227225365]"
  "fold sha256_round
     [(961987163, 0), (1508970993, 0), (2453635748, 0), (2870763221, 0)]
     [3062252239, 3290287156, 1107783972, 1597439168, 3001461791, 2971019483, 3641847254, 4227225365]
   = [1450275026, 1745942445, 17078000, 1705863046, 121697073, 1628409727, 1303925874, 470157767]"
  "fold sha256_round
     [(3624381080, 0), (310598401, 0), (607225278, 0), (1426881987, 0)]
     [1450275026, 1745942445, 17078000, 1705863046, 121697073, 1628409727, 1303925874, 470157767]
   = [2239093360, 1624937748, 1117832348, 1458130169, 3191641236, 3132224190, 1441850724, 2780305065]"
  "fold sha256_round
     [(1925078388, 0), (2162078206, 0), (2614888103, 0), (3248222580, 104)]
     [2239093360, 1624937748, 1117832348, 1458130169, 3191641236, 3132224190, 1441850724, 2780305065]
   = [969616259, 4196101378, 3331118396, 1496209643, 705538134, 3937875819, 524013372, 1232482985]"
  "fold sha256_round
     [(3835390401, 1938486248), (4022224774, 2961756982), (264347078, 2429361928), (604807628,
     2807147617)]
     [969616259, 4196101378, 3331118396, 1496209643, 705538134, 3937875819, 524013372, 1232482985]
   = [2211224767, 904734636, 3555061456, 4007512349, 1092977233, 1584791881, 1528489975, 2394664104]"
  "fold sha256_round
     [(770255983, 742484280), (1249150122, 3818205993), (1555081692, 2578449498), (1996064986,
     3008634076)]
     [2211224767, 904734636, 3555061456, 4007512349, 1092977233, 1584791881, 1528489975, 2394664104]
   = [2020552150, 101045076, 2254379604, 2893920335, 3916569438, 641383469, 3570669862, 3488615276]"
  "fold sha256_round
     [(2554220882, 3003729701), (2821834349, 514210255), (2952996808, 850156053), (3210313671,
     135999041)]
     [2020552150, 101045076, 2254379604, 2893920335, 3916569438, 641383469, 3570669862, 3488615276]
   = [1239495436, 1633103320, 1907766294, 1272017578, 911707134, 156726052, 1801662342, 2782969272]"
  "fold sha256_round
     [(3336571891, 2312750910), (3584528711, 2358945823), (113926993, 1590231183), (338241895,
     379891833)]
     [1239495436, 1633103320, 1907766294, 1272017578, 911707134, 156726052, 1801662342, 2782969272]
   = [2181435050, 3692703922, 439958147, 1572441051, 358309782, 3980103678, 3529662581, 951948924]"
  "fold sha256_round
     [(666307205, 2184236182), (773529912, 4133833697), (1294757372, 3583928758), (1396182291,
     1836807472)]
     [2181435050, 3692703922, 439958147, 1572441051, 358309782, 3980103678, 3529662581, 951948924]
   = [1037283484, 4186350851, 1170091405, 421666529, 2571708210, 247935880, 2394521250, 248657544]"
  "fold sha256_round
     [(1695183700, 3056918051), (1986661051, 3180814454), (2177026350, 1300749621), (2456956037,
     2658020539)]
     [1037283484, 4186350851, 1170091405, 421666529, 2571708210, 247935880, 2394521250, 248657544]
   = [3992972207, 2102612944, 316102674, 76984397, 1248054368, 1220362178, 2171738334, 3670718292]"
  "fold sha256_round
     [(2730485921, 3526905453), (2820302411, 48720467), (3259730800, 393920031), (3345764771,
     882544248)]
     [3992972207, 2102612944, 316102674, 76984397, 1248054368, 1220362178, 2171738334, 3670718292]
   = [4224327984, 2236765533, 2986180586, 759203042, 3247172901, 2916236909, 2838384785, 1515302650]"
  "fold sha256_round
     [(3516065817, 3569902374), (3600352804, 1181230451), (4094571909, 400640757), (275423344,
     223029597)]
     [4224327984, 2236765533, 2986180586, 759203042, 3247172901, 2916236909, 2838384785, 1515302650]
   = [2753106638, 2904896484, 1221712422, 1919405697, 383361526, 3007649277, 1340387240, 3453765625]"
  "fold sha256_round
     [(430227734, 2702321337), (506948616, 3973825608), (659060556, 303438690), (883997877,
     1123833170)]
     [2753106638, 2904896484, 1221712422, 1919405697, 383361526, 3007649277, 1340387240, 3453765625]
   = [4224800918, 3656708369, 88804051, 1972041805, 484949647, 2787992877, 4096494235, 3769193725]"
  "fold sha256_round
     [(958139571, 3997909008), (1322822218, 166930716), (1537002063, 316996899), (1747873779,
     61364832)]
     [4224800918, 3656708369, 88804051, 1972041805, 484949647, 2787992877, 4096494235, 3769193725]
   = [360987116, 310762848, 238078578, 2743088947, 369119188, 766830877, 3322512623, 1573805]"
  "fold sha256_round
     [(1955562222, 487802861), (2024104815, 3468744909), (2227730452, 2062018400), (2361852424,
     3928745638)]
     [360987116, 310762848, 238078578, 2743088947, 369119188, 766830877, 3322512623, 1573805]
   = [640489932, 1199844360, 3824604893, 4063014512, 4143550243, 1360751838, 3790432958, 2755787319]"
  "fold sha256_round
     [(2428436474, 3575324054), (2756734187, 2742612850), (3204031479, 2059095145), (3329325298,
     2167166487)]
     [640489932, 1199844360, 3824604893, 4063014512, 4143550243, 1360751838, 3790432958, 2755787319]
   = [2954183382, 4217091736, 1075418801, 1305317802, 2820501844, 2063315096, 3021713621, 1690885067]"
  by (simp_all add: Let_def bsig0_def bsig1_def Ch_def Maj_def rotr_def)

lemma digest_c_rounds:
  "fold sha256_round
     (zip sha256_K
        [1663988851, 1818588192, 1663057184, 864026624, 0, 0, 0, 0, 0, 0, 0, 0, 0, 0, 0, 104,
        1938486248, 2961756982, 2429361928, 2807147617, 742484280, 3818205993, 2578449498, 3008634076,
        3003729701, 514210255, 850156053, 135999041, 2312750910, 2358945823, 1590231183, 379891833,
        2184236182, 4133833697, 3583928758, 1836807472, 3056918051, 3180814454, 1300749621, 2658020539,
        3526905453, 48720467, 393920031, 882544248, 3569902374, 1181230451, 400640757, 223029597,
        2702321337, 3973825608, 303438690, 1123833170, 3997909008, 166930716, 316996899, 61364832,
        487802861, 3468744909, 2062018400, 3928745638, 3575324054, 2742612850, 2059095145, 2167166487])
     sha256_H0
   = [2954183382, 4217091736, 1075418801, 1305317802, 2820501844, 2063315096, 3021713621, 1690885067]"
proof -
  have "zip sha256_K
        ([1663988851, 1818588192, 1663057184, 864026624, 0, 0, 0, 0, 0, 0, 0, 0, 0, 0, 0, 104,
        1938486248, 2961756982, 2429361928, 2807147617, 742484280, 3818205993, 2578449498, 3008634076,
        3003729701, 514210255, 850156053, 135999041, 2312750910, 2358945823, 1590231183, 379891833,
        2184236182, 4133833697, 3583928758, 1836807472, 3056918051, 3180814454, 1300749621, 2658020539,
        3526905453, 48720467, 393920031, 882544248, 3569902374, 1181230451, 400640757, 223029597,
        2702321337, 3973825608, 303438690, 1123833170, 3997909008, 166930716, 316996899, 61364832,
        487802861, 3468744909, 2062018400, 3928745638, 3575324054, 2742612850, 2059095145, 2167166487] :: u32 list)
    = [(1116352408, 1663988851), (1899447441, 1818588192), (3049323471, 1663057184), (3921009573,
        864026624)]
      @ [(961987163, 0), (1508970993, 0), (2453635748, 0), (2870763221, 0)]
      @ [(3624381080, 0), (310598401, 0), (607225278, 0), (1426881987, 0)]
      @ [(1925078388, 0), (2162078206, 0), (2614888103, 0), (3248222580, 104)]
      @ [(3835390401, 1938486248), (4022224774, 2961756982), (264347078, 2429361928), (604807628,
        2807147617)]
      @ [(770255983, 742484280), (1249150122, 3818205993), (1555081692, 2578449498), (1996064986,
        3008634076)]
      @ [(2554220882, 3003729701), (2821834349, 514210255), (2952996808, 850156053), (3210313671,
        135999041)]
      @ [(3336571891, 2312750910), (3584528711, 2358945823), (113926993, 1590231183), (338241895,
        379891833)]
      @ [(666307205, 2184236182), (773529912, 4133833697), (1294757372, 3583928758), (1396182291,
        1836807472)]
      @ [(1695183700, 3056918051), (1986661051, 3180814454), (2177026350, 1300749621), (2456956037,
        2658020539)]
      @ [(2730485921, 3526905453), (2820302411, 48720467), (3259730800, 393920031), (3345764771,
        882544248)]
      @ [(3516065817, 3569902374), (3600352804, 1181230451), (4094571909, 400640757), (275423344,
        223029597)]
      @ [(430227734, 2702321337), (506948616, 3973825608), (659060556, 303438690), (883997877,
        1123833170)]
      @ [(958139571, 3997909008), (1322822218, 166930716), (1537002063, 316996899), (1747873779,
        61364832)]
      @ [(1955562222, 487802861), (2024104815, 3468744909), (2227730452, 2062018400), (2361852424,
        3928745638)]
      @ [(2428436474, 3575324054), (2756734187, 2742612850), (3204031479, 2059095145), (3329325298,
        2167166487)]"
    by (simp add: sha256_K_def)
  then show ?thesis
    by (simp only: fold_append o_apply sha256_H0_def digest_c_round_steps)
qed

lemma digest_c_words:
  "sha256 (map of_char ''c.tslet c = 3'')
   = [438249789, 3066258717, 2089323043, 4078798564, 4180394963, 369170724, 3550448256, 3232344292]"
  unfolding sha256_def digest_c_block
  by (simp add: sha256_one_block sha256_block_def digest_c_schedule digest_c_rounds)
     (simp add: sha256_H0_def)

lemma digest_c:
  "calculateHash ''c.ts'' ''let c = 3''
   = ''1a1f293db6c3651d7c888a23f31d86e4f92bc3d316011924d39f8a80c0a9a8e4''"
  unfolding calculateHash_concat sha256_hex_def
  by (simp only: append.simps digest_c_words) (simp add: hex_u32_def hex_digit_def upt_conv_Cons)

subsection \<open>\<open>d.ts\<close> with content \<open>let d = 4\<close>\<close>

lemma digest_d_block:
  "be_words (sha256_pad (map of_char ''d.tslet d = 4''))
   = [1680766067, 1818588192, 1679834400, 880803840, 0, 0, 0, 0, 0, 0, 0, 0, 0, 0, 0, 104]"
  by (simp add: sha256_pad_def be_bytes_def upt_conv_Cons replicate_numeral)

lemma digest_d_schedule_steps:
  "schedule 16
     [1680766067, 1818588192, 1679834400, 880803840, 0, 0, 0, 0, 0, 0, 0, 0, 0, 0, 0, 104]
   = [1680766067, 1818588192, 1679834400, 880803840, 0, 0, 0, 0, 0, 0, 0, 0, 0, 0, 0, 104,
     1955263464, 2946683638, 2460836008, 1737386641, 476442715, 4160978092, 1176630570, 1183373254,
     1942271647, 62368328, 890179912, 1020517538, 1652808846, 3689701934, 2893100473, 2477480786]"
  "schedule 16
     [1680766067, 1818588192, 1679834400, 880803840, 0, 0, 0, 0, 0, 0, 0, 0, 0, 0, 0, 104,
     1955263464, 2946683638, 2460836008, 1737386641, 476442715, 4160978092, 1176630570, 1183373254,
     1942271647, 62368328, 890179912, 1020517538, 1652808846, 3689701934, 2893100473, 2477480786]
   = [1680766067, 1818588192, 1679834400, 880803840, 0, 0, 0, 0, 0, 0, 0, 0, 0, 0, 0, 104,
     1955263464, 2946683638, 2460836008, 1737386641, 476442715, 4160978092, 1176630570, 1183373254,
     1942271647, 62368328, 890179912, 1020517538, 1652808846, 3689701934, 2893100473, 2477480786,
     2157597246, 3337922611, 3885268088, 1424171167, 1136145436, 3116439377, 2820158231, 2378729712,
     3579846853, 2469084551, 1393331476, 1637541509, 1371748125, 3746021196, 2570701299, 2334228608]"
  "schedule 16
     [1680766067, 1818588192, 1679834400, 880803840, 0, 0, 0, 0, 0, 0, 0, 0, 0, 0, 0, 104,
     1955263464, 2946683638, 2460836008, 1737386641, 476442715, 4160978092, 1176630570, 1183373254,
     1942271647, 62368328, 890179912, 1020517538, 1652808846, 3689701934, 2893100473, 2477480786,
     2157597246, 3337922611, 3885268088, 1424171167, 1136145436, 3116439377, 2820158231, 2378729712,
     3579846853, 2469084551, 1393331476, 1637541509, 1371748125, 3746021196, 2570701299, 2334228608]
   = [1680766067, 1818588192, 1679834400, 880803840, 0, 0, 0, 0, 0, 0, 0, 0, 0, 0, 0, 104,
     1955263464, 2946683638, 2460836008, 1737386641, 476442715, 4160978092, 1176630570, 1183373254,
     1942271647, 62368328, 890179912, 1020517538, 1652808846, 3689701934, 2893100473, 2477480786,
     2157597246, 3337922611, 3885268088, 1424171167, 1136145436, 3116439377, 2820158231, 2378729712,
     3579846853, 2469084551, 1393331476, 1637541509, 1371748125, 3746021196, 2570701299, 2334228608,
     1191645049, 4237783149, 2877564167, 983704006, 2863236055, 3731304403, 4153663861, 3760936606,
     818153462, 30844366, 3490303952, 2415908049, 2077632172, 1846957977, 3243555202, 3602540034]"
  by (simp_all add: schedule_numeral ssig0_def ssig1_def rotr_def)

lemma digest_d_schedule:
  "schedule 48
     [1680766067, 1818588192, 1679834400, 880803840, 0, 0, 0, 0, 0, 0, 0, 0, 0, 0, 0, 104]
   = [1680766067, 1818588192, 1679834400, 880803840, 0, 0, 0, 0, 0, 0, 0, 0, 0, 0, 0, 104,
     1955263464, 2946683638, 2460836008, 1737386641, 476442715, 4160978092, 1176630570, 1183373254,
     1942271647, 62368328, 890179912, 1020517538, 1652808846, 3689701934, 2893100473, 2477480786,
     2157597246, 3337922611, 3885268088, 1424171167, 1136145436, 3116439377, 2820158231, 2378729712,
     3579846853, 2469084551, 1393331476, 1637541509, 1371748125, 3746021196, 2570701299, 2334228608,
     1191645049, 4237783149, 2877564167, 983704006, 2863236055, 3731304403, 4153663861, 3760936606,
     818153462, 30844366, 3490303952, 2415908049, 2077632172, 1846957977, 3243555202, 3602540034]"
  by (simp only: schedule_48 digest_d_schedule_steps)

lemma digest_d_round_steps:
  "fold sha256_round
     [(1116352408, 1680766067), (1899447441, 1818588192), (3049323471, 1679834400), (3921009573,
     880803840)]
     [1779033703, 3144134277, 1013904242, 2773480762, 1359893119, 2600822924, 528734635, 1541459225]
   = [2749890227, 4267299709, 2931132461, 1614216384, 2626132677, 1386935424, 1526648275, 4244002581]"
  "fold sha256_round
     [(961987163, 0), (1508970993, 0), (2453635748, 0), (2870763221, 0)]
     [2749890227, 4267299709, 2931132461, 1614216384, 2626132677, 1386935424, 1526648275, 4244002581]
   = [1166240319, 496911058, 648102665, 3353928625, 4173787441, 2670260556, 494016209, 4136359960]"
  "fold sha256_round
     [(3624381080, 0), (310598401, 0), (607225278, 0), (1426881987, 0)]
     [1166240319, 496911058, 648102665, 3353928625, 4173787441, 2670260556, 494016209, 4136359960]
   = [1351413961, 414412603, 3961762341, 2166252531, 2610169246, 207566258, 2261922864, 3058825735]"
  "fold sha256_round
     [(1925078388, 0), (2162078206, 0), (2614888103, 0), (3248222580, 104)]
     [1351413961, 414412603, 3961762341, 2166252531, 2610169246, 207566258, 2261922864, 3058825735]
   = [1690548163, 715220847, 2771293509, 1937050184, 501149893, 1492429744, 2783241258, 3125075707]"
  "fold sha256_round
     [(3835390401, 1955263464), (4022224774, 2946683638), (264347078, 2460836008), (604807628,
     1737386641)]
     [1690548163, 715220847, 2771293509, 1937050184, 501149893, 1492429744, 2783241258, 3125075707]
   = [987789883, 1404030644, 2246531185, 1051001254, 2844338605, 433448207, 3856046100, 595693097]"
  "fold sha256_round
     [(770255983, 476442715), (1249150122, 4160978092), (1555081692, 1176630570), (1996064986,
     1183373254)]
     [987789883, 1404030644, 2246531185, 1051001254, 2844338605, 433448207, 3856046100, 595693097]
   = [1258735985, 496390478, 1285010980, 3047202558, 335572135, 935741886, 3321347946, 1104486669]"
  "fold sha256_round
     [(2554220882, 1942271647), (2821834349, 62368328), (2952996808, 890179912), (3210313671,
     1020517538)]
     [1258735985, 496390478, 1285010980, 3047202558, 335572135, 935741886, 3321347946, 1104486669]
   = [3773208234, 859509599, 835587684, 2086262731, 1075324681, 2417424414, 456931440, 3790960159]"
  "fold sha256_round
     [(3336571891, 1652808846), (3584528711, 3689701934), (113926993, 2893100473), (338241895,
     2477480786)]
     [3773208234, 859509599, 835587684, 2086262731, 1075324681, 2417424414, 456931440, 3790960159]
   = [1413687724, 803052561, 1032555849, 3085671899, 407881126, 2718885293, 236834013, 1797477915]"
  "fold sha256_round
     [(666307205, 2157597246), (773529912, 3337922611), (1294757372, 3885268088), (1396182291,
     1424171167)]
     [1413687724, 803052561, 1032555849, 3085671899, 407881126, 2718885293, 236834013, 1797477915]
   = [1536420026, 3112899957, 3739224915, 3077885161, 106702098, 3858558190, 192077234, 3703571608]"
  "fold sha256_round
     [(1695183700, 1136145436), (1986661051, 3116439377), (2177026350, 2820158231), (2456956037,
     2378729712)]
     [1536420026, 3112899957, 3739224915, 3077885161, 106702098, 3858558190, 192077234, 3703571608]
   = [3146651977, 2809696138, 3426654223, 3479483407, 267399993, 3367695401, 237209096, 247572390]"
  "fold sha256_round
     [(2730485921, 3579846853), (2820302411, 2469084551), (3259730800, 1393331476), (3345764771,
     1637541509)]
     [3146651977, 2809696138, 3426654223, 3479483407, 267399993, 3367695401, 237209096, 247572390]
   = [2020905706, 3647625777, 1685480388, 1453792601, 3504322087, 730539423, 1441843030, 3657546641]"
  "fold sha256_round
     [(3516065817, 1371748125), (3600352804, 3746021196), (4094571909, 2570701299), (275423344,
     2334228608)]
     [2020905706, 3647625777, 1685480388, 1453792601, 3504322087, 730539423, 1441843030, 3657546641]
   = [3526560830, 1653710782, 2674694254, 2330024131, 2627500881, 3402168835, 2310771262, 2383205437]"
  "fold sha256_round
     [(430227734, 1191645049), (506948616, 4237783149), (659060556, 2877564167), (883997877,
     983704006)]
     [3526560830, 1653710782, 2674694254, 2330024131, 2627500881, 3402168835, 2310771262, 2383205437]
   = [2271274163, 2321006561, 908945190, 3327995844, 265323937, 361086975, 3631908309, 1707229802]"
  "fold sha256_round
     [(958139571, 2863236055), (1322822218, 3731304403), (1537002063, 4153663861), (1747873779,
     3760936606)]
     [2271274163, 2321006561, 908945190, 3327995844, 265323937, 361086975, 3631908309, 1707229802]
   = [1237557508, 1267546767, 2085971910, 3318445379, 1357110796, 468316674, 3028606189, 3186356526]"
  "fold sha256_round
     [(1955562222, 818153462), (2024104815, 30844366), (2227730452, 3490303952), (2361852424,
     2415908049)]
     [1237557508, 1267546767, 2085971910, 3318445379, 1357110796, 468316674, 3028606189, 3186356526]
   = [2692912871, 3605826677, 2326387073, 4159160095, 1865701300, 1289087227, 524113683, 1595365729]"
  "fold sha256_round
     [(2428436474, 2077632172), (2756734187, 1846957977), (3204031479, 3243555202), (3329325298,
     3602540034)]
     [2692912871, 3605826677, 2326387073, 4159160095, 1865701300, 1289087227, 524113683, 1595365729]
   = [2185813439, 3848181891, 3747325899, 1557367473, 4265961186, 945840579, 1219375380, 2093772220]"
  by (simp_all add: Let_def bsig0_def bsig1_def Ch_def Maj_def rotr_def)

lemma digest_d_rounds:
  "fold sha256_round
     (zip sha256_K
        [1680766067, 1818588192, 1679834400, 880803840, 0, 0, 0, 0, 0, 0, 0, 0, 0, 0, 0, 104,
        1955263464, 2946683638, 2460836008, 1737386641, 476442715, 4160978092, 1176630570, 1183373254,
        1942271647, 62368328, 890179912, 1020517538, 1652808846, 3689701934, 2893100473, 2477480786,
        2157597246, 3337922611, 3885268088, 1424171167, 1136145436, 3116439377, 2820158231, 2378729712,
        3579846853, 2469084551, 1393331476, 1637541509, 1371748125, 3746021196, 2570701299, 2334228608,
        1191645049, 4237783149, 2877564167, 983704006, 2863236055, 3731304403, 4153663861, 3760936606,
        818153462, 30844366, 3490303952, 2415908049, 2077632172, 1846957977, 3243555202, 3602540034])
     sha256_H0
   = [2185813439, 3848181891, 3747325899, 1557367473, 4265961186, 945840579, 1219375380, 2093772220]"
proof -
  have "zip sha256_K
        ([1680766067, 1818588192, 1679834400, 880803840, 0, 0, 0, 0, 0, 0, 0, 0, 0, 0, 0, 104,
        1955263464, 2946683638, 2460836008, 1737386641, 476442715, 4160978092, 1176630570, 1183373254,
        1942271647, 62368328, 890179912, 1020517538, 1652808846, 3689701934, 2893100473, 2477480786,
        2157597246, 3337922611, 3885268088, 1424171167, 1136145436, 3116439377, 2820158231, 2378729712,
        3579846853, 2469084551, 1393331476, 1637541509, 1371748125, 3746021196, 2570701299, 2334228608,
        1191645049, 4237783149, 2877564167, 983704006, 2863236055, 3731304403, 4153663861, 3760936606,
        818153462, 30844366, 3490303952, 2415908049, 2077632172, 1846957977, 3243555202, 3602540034] :: u32 list)
    = [(1116352408, 1680766067), (1899447441, 1818588192), (3049323471, 1679834400), (3921009573,
        880803840)]
      @ [(961987163, 0), (1508970993, 0), (2453635748, 0), (2870763221, 0)]
      @ [(3624381080, 0), (310598401, 0), (607225278, 0), (1426881987, 0)]
      @ [(1925078388, 0), (2162078206, 0), (2614888103, 0), (3248222580, 104)]
      @ [(3835390401, 1955263464), (4022224774, 2946683638), (264347078, 2460836008), (604807628,
        1737386641)]
      @ [(770255983, 476442715), (1249150122, 4160978092), (1555081692, 1176630570), (1996064986,
        1183373254)]
      @ [(2554220882, 1942271647), (2821834349, 62368328), (2952996808, 890179912), (3210313671,
        1020517538)]
      @ [(3336571891, 1652808846), (3584528711, 3689701934), (113926993, 2893100473), (338241895,
        2477480786)]
      @ [(666307205, 2157597246), (773529912, 3337922611), (1294757372, 3885268088), (1396182291,
        1424171167)]
      @ [(1695183700, 1136145436), (1986661051, 3116439377), (2177026350, 2820158231), (2456956037,
        2378729712)]
      @ [(2730485921, 3579846853), (2820302411, 2469084551), (3259730800, 1393331476), (3345764771,
        1637541509)]
      @ [(3516065817, 1371748125), (3600352804, 3746021196), (4094571909, 2570701299), (275423344,
        2334228608)]
      @ [(430227734, 1191645049), (506948616, 4237783149), (659060556, 2877564167), (883997877,
        983704006)]
      @ [(958139571, 2863236055), (1322822218, 3731304403), (1537002063, 4153663861), (1747873779,
        3760936606)]
      @ [(1955562222, 818153462), (2024104815, 30844366), (2227730452, 3490303952), (2361852424,
        2415908049)]
      @ [(2428436474, 2077632172), (2756734187, 1846957977), (3204031479, 3243555202), (3329325298,
        3602540034)]"
    by (simp add: sha256_K_def)
  then show ?thesis
    by (simp only: fold_append o_apply sha256_H0_def digest_d_round_steps)
qed

lemma digest_d_words:
  "sha256 (map of_char ''d.tslet d = 4'')
   = [3964847142, 2697348872, 466262845, 35880939, 1330887009, 3546663503, 1748110015, 3635231445]"
  unfolding sha256_def digest_d_block
  by (simp add: sha256_one_block sha256_block_def digest_d_schedule digest_d_rounds)
     (simp add: sha256_H0_def)

lemma digest_d:
  "calculateHash ''d.ts'' ''let d = 4''
   = ''ec52c426a0c647081bca9b3d02237feb4f53b961d365ca4f68320abfd8ad3ad5''"
  unfolding calculateHash_concat sha256_hex_def
  by (simp only: append.simps digest_d_words) (simp add: hex_u32_def hex_digit_def upt_conv_Cons)

section \<open>Chunker\<close>

lemma split_nl_nonempty: "split_nl s \<noteq> []"
  by (induction s) auto

lemma split_nl_no_newline: "l \<in> set (split_nl s) \<Longrightarrow> newline \<notin> set l"
proof (induction s arbitrary: l)
  case Nil
  then show ?case by simp
next
  case (Cons c cs)
  obtain h t where ht: "split_nl cs = h # t"
    using split_nl_nonempty [of cs] by (cases "split_nl cs") auto
  with Cons show ?case by (auto split: if_splits)
qed

lemma split_nl_line: "newline \<notin> set l \<Longrightarrow> split_nl (l @ newline # r) = l # split_nl r"
  by (induction l) auto

lemma split_nl_single: "newline \<notin> set l \<Longrightarrow> split_nl l = [l]"
  by (induction l) auto

lemma split_join_nl:
  "ls \<noteq> [] \<Longrightarrow> (\<And>l. l \<in> set ls \<Longrightarrow> newline \<notin> set l) \<Longrightarrow> split_nl (join_nl ls) = ls"
proof (induction ls rule: join_nl.induct)
  case 1
  then show ?case by simp
next
  case (2 l)
  then show ?case by (simp add: split_nl_single)
next
  case (3 l v va)
  then show ?case by (simp add: split_nl_line)
qed

lemma join_split_nl: "join_nl (split_nl s) = s"
proof (induction s)
  case Nil
  then show ?case by simp
next
  case (Cons c cs)
  obtain h t where ht: "split_nl cs = h # t"
    using split_nl_nonempty [of cs] by (cases "split_nl cs") auto
  with Cons show ?case by (cases t) auto
qed

lemma slice_chunk: "slice xs s (min (s + m) (length xs)) = take m (drop s xs)"
  by (simp add: slice_def min_def)

lemma concat_chunks:
  "concat (map (\<lambda>i. take m (drop (i * m) xs)) [0..<n]) = take (n * m) xs"
proof (induction n)
  case 0
  then show ?case by simp
next
  case (Suc n)
  have "take (n * m) xs @ take m (drop (n * m) xs) = take (n * m + m) xs"
    by (simp add: take_add)
  with Suc show ?case by (simp add: add.commute)
qed

lemma ceil_div_bounds:
  assumes "0 < b" and "0 < a"
  shows "(ceil_div a b - 1) * b < a" and "a \<le> ceil_div a b * b"
proof -
  obtain q r where qr: "a - 1 = q * b + r" "r < b"
    using assms(1) by (metis mod_less_divisor div_mult_mod_eq)
  have a: "a = q * b + r + 1" using qr(1) assms(2) by simp
  have "(a + b - 1) div b = q + 1"
    using a qr(2) by (intro div_nat_eqI) (simp_all add: algebra_simps)
  then have c: "ceil_div a b = q + 1" by (simp add: ceil_div_def)
  show "(ceil_div a b - 1) * b < a" using c a by simp
  show "a \<le> ceil_div a b * b" using c a qr(2) by (simp add: algebra_simps)
qed

lemma chunk_lines:
  assumes "i * m < length (split_nl s)" and "0 < m"
  shows "split_nl (join_nl (take m (drop (i * m) (split_nl s)))) = take m (drop (i * m) (split_nl s))"
proof (rule split_join_nl)
  show "take m (drop (i * m) (split_nl s)) \<noteq> []"
    using assms by simp
next
  fix l assume "l \<in> set (take m (drop (i * m) (split_nl s)))"
  then have "l \<in> set (split_nl s)"
    by (meson in_set_takeD in_set_dropD)
  then show "newline \<notin> set l" by (rule split_nl_no_newline)
qed

text \<open>
  Claim C4. With a positive \<open>maxLinesPerBlob\<close> (the configuration loader rejects any
  other), a content of at most that many lines comes back as the single blob, unchanged.
  A longer one gives \<open>n\<close> blobs, \<open>n\<close> the ceiling of the line count over
  \<open>maxLinesPerBlob\<close>; blob \<open>i\<close> (from 0) is named \<open>relativePath#chunk(i+1)of(n)\<close> and
  holds the lines from \<open>i * maxLinesPerBlob\<close> on, \<open>maxLinesPerBlob\<close> of them except
  possibly in the last blob, which holds at least one; the chunks' lines, concatenated in
  order, are the original lines.
\<close>

theorem chunker_correct:
  assumes m_pos: "0 < maxLinesPerBlob config"
  shows "(length (split_nl content') \<le> maxLinesPerBlob config \<longrightarrow>
            splitFileContent config filePath content'
              = Some [\<lparr>path = filePath, content = content', hash = None\<rparr>])
       \<and> (maxLinesPerBlob config < length (split_nl content') \<longrightarrow>
            (\<exists>blobs n.
               splitFileContent config filePath content' = Some blobs
             \<and> length blobs = n
             \<and> (n - 1) * maxLinesPerBlob config < length (split_nl content')
             \<and> length (split_nl content') \<le> n * maxLinesPerBlob config
             \<and> (\<forall>i<n.
                   path (blobs ! i)
                     = filePath @ ''#chunk'' @ show_nat (i + 1) @ ''of'' @ show_nat n
                 \<and> hash (blobs ! i) = None
                 \<and> split_nl (content (blobs ! i))
                     = take (maxLinesPerBlob config)
                         (drop (i * maxLinesPerBlob config) (split_nl content'))
                 \<and> (i < n - 1 \<longrightarrow>
                       length (split_nl (content (blobs ! i))) = maxLinesPerBlob config)
                 \<and> 0 < length (split_nl (content (blobs ! i)))
                 \<and> length (split_nl (content (blobs ! i))) \<le> maxLinesPerBlob config)
             \<and> concat (map (\<lambda>b. split_nl (content b)) blobs) = split_nl content'))"
proof (intro conjI impI)
  assume "length (split_nl content') \<le> maxLinesPerBlob config"
  then show "splitFileContent config filePath content'
               = Some [\<lparr>path = filePath, content = content', hash = None\<rparr>]"
    by (simp add: splitFileContent_def)
next
  define m where "m = maxLinesPerBlob config"
  define ls where "ls = split_nl content'"
  define n where "n = ceil_div (length ls) m"
  define mk where "mk = (\<lambda>i. \<lparr>path = filePath @ ''#chunk'' @ show_nat (i + 1) @ ''of'' @ show_nat n,
                               content = join_nl (take m (drop (i * m) ls)), hash = None\<rparr>)"
  define blobs where "blobs = map mk [0..<n]"
  assume big: "maxLinesPerBlob config < length (split_nl content')"
  have m_pos': "0 < m" using m_pos by (simp add: m_def)
  have L_pos: "0 < length ls" using split_nl_nonempty [of content'] by (simp add: ls_def)
  have lo: "(n - 1) * m < length ls" and hi: "length ls \<le> n * m"
    unfolding n_def using ceil_div_bounds [OF m_pos' L_pos] by simp_all
  have res: "splitFileContent config filePath content' = Some blobs"
    using big m_pos
    by (simp add: splitFileContent_def Let_def slice_chunk blobs_def mk_def n_def m_def ls_def)
  have len: "length blobs = n" by (simp add: blobs_def)
  have below: "i * m < length ls" if "i < n" for i
  proof -
    have "i * m \<le> (n - 1) * m" using that by (intro mult_le_mono1) simp
    then show ?thesis using lo by (rule le_less_trans)
  qed
  have lines_i: "split_nl (content (blobs ! i)) = take m (drop (i * m) ls)" if "i < n" for i
    using that chunk_lines [of i m content'] below [OF that] m_pos'
    by (simp add: blobs_def mk_def ls_def)
  have full: "length (take m (drop (i * m) ls)) = m" if "i < n - 1" for i
  proof -
    have "(i + 1) * m \<le> (n - 1) * m" using that by (intro mult_le_mono1) simp
    then have "(i + 1) * m < length ls" using lo by (rule le_less_trans)
    then have "i * m + m < length ls" by simp
    then show ?thesis by simp
  qed
  have each: "path (blobs ! i) = filePath @ ''#chunk'' @ show_nat (i + 1) @ ''of'' @ show_nat n
      \<and> hash (blobs ! i) = None
      \<and> split_nl (content (blobs ! i)) = take m (drop (i * m) ls)
      \<and> (i < n - 1 \<longrightarrow> length (split_nl (content (blobs ! i))) = m)
      \<and> 0 < length (split_nl (content (blobs ! i)))
      \<and> length (split_nl (content (blobs ! i))) \<le> m" if "i < n" for i
  proof -
    have p: "path (blobs ! i) = filePath @ ''#chunk'' @ show_nat (i + 1) @ ''of'' @ show_nat n"
      and h: "hash (blobs ! i) = None"
      using that by (simp_all add: blobs_def mk_def)
    have pos: "0 < length (take m (drop (i * m) ls))"
      using below [OF that] m_pos' by simp
    show ?thesis
      using p h lines_i [OF that] full [of i] pos by simp
  qed
  have "concat (map (\<lambda>b. split_nl (content b)) blobs)
          = concat (map (\<lambda>i. take m (drop (i * m) ls)) [0..<n])"
  proof -
    have "map (\<lambda>b. split_nl (content b)) blobs = map (\<lambda>i. take m (drop (i * m) ls)) [0..<n]"
    proof (rule nth_equalityI)
      show "length (map (\<lambda>b. split_nl (content b)) blobs)
              = length (map (\<lambda>i. take m (drop (i * m) ls)) [0..<n])"
        by (simp add: len)
    next
      fix i assume "i < length (map (\<lambda>b. split_nl (content b)) blobs)"
      then have "i < n" by (simp add: len)
      then show "map (\<lambda>b. split_nl (content b)) blobs ! i
                   = map (\<lambda>i. take m (drop (i * m) ls)) [0..<n] ! i"
        using lines_i [of i] by (simp add: len)
    qed
    then show ?thesis by simp
  qed
  also have "\<dots> = take (n * m) ls" by (rule concat_chunks)
  also have "\<dots> = ls" using hi by simp
  finally have cat: "concat (map (\<lambda>b. split_nl (content b)) blobs) = ls" .
  show "\<exists>blobs n.
               splitFileContent config filePath content' = Some blobs
             \<and> length blobs = n
             \<and> (n - 1) * maxLinesPerBlob config < length (split_nl content')
             \<and> length (split_nl content') \<le> n * maxLinesPerBlob config
             \<and> (\<forall>i<n.
                   path (blobs ! i)
                     = filePath @ ''#chunk'' @ show_nat (i + 1) @ ''of'' @ show_nat n
                 \<and> hash (blobs ! i) = None
                 \<and> split_nl (content (blobs ! i))
                     = take (maxLinesPerBlob config)
                         (drop (i * maxLinesPerBlob config) (split_nl content'))
                 \<and> (i < n - 1 \<longrightarrow>
                       length (split_nl (content (blobs ! i))) = maxLinesPerBlob config)
                 \<and> 0 < length (split_nl (content (blobs ! i)))
                 \<and> length (split_nl (content (blobs ! i))) \<le> maxLinesPerBlob config)
             \<and> concat (map (\<lambda>b. split_nl (content b)) blobs) = split_nl content'"
    using res len lo hi each cat unfolding m_def ls_def by blast
qed

theorem chunker_correct_witness:
  "0 < maxLinesPerBlob example_config
   \<and> maxLinesPerBlob example_config < length (split_nl three_lines)
   \<and> splitFileContent example_config ''a.ts'' three_lines
       = Some [\<lparr>path = ''a.ts#chunk1of2'', content = ''one'' @ newline # ''two'', hash = None\<rparr>,
               \<lparr>path = ''a.ts#chunk2of2'', content = ''three'', hash = None\<rparr>]
   \<and> concat (map (\<lambda>b. split_nl (content b))
         [\<lparr>path = ''a.ts#chunk1of2'', content = ''one'' @ newline # ''two'', hash = None\<rparr>,
          \<lparr>path = ''a.ts#chunk2of2'', content = ''three'', hash = None\<rparr>])
       = split_nl three_lines
   \<and> length (split_nl ''short'') \<le> maxLinesPerBlob example_config
   \<and> splitFileContent example_config ''b.md'' ''short''
       = Some [\<lparr>path = ''b.md'', content = ''short'', hash = None\<rparr>]"
proof -
  have pos: "0 < maxLinesPerBlob example_config"
    by (simp add: example_config_def)
  have big: "maxLinesPerBlob example_config < length (split_nl three_lines)"
    by (simp add: example_config_def three_lines_def newline_def)
  have small: "length (split_nl ''short'') \<le> maxLinesPerBlob example_config"
    by (simp add: example_config_def newline_def)
  have run: "splitFileContent example_config ''a.ts'' three_lines
       = Some [\<lparr>path = ''a.ts#chunk1of2'', content = ''one'' @ newline # ''two'', hash = None\<rparr>,
               \<lparr>path = ''a.ts#chunk2of2'', content = ''three'', hash = None\<rparr>]"
    by (simp add: example_config_def three_lines_def newline_def splitFileContent_def
        ceil_div_def slice_def upt_conv_Cons Let_def digit_char_def)
  from chunker_correct [OF pos, of three_lines "''a.ts''"] big
  obtain blobs where "splitFileContent example_config ''a.ts'' three_lines = Some blobs"
    and "concat (map (\<lambda>b. split_nl (content b)) blobs) = split_nl three_lines"
    by blast
  with run have cat: "concat (map (\<lambda>b. split_nl (content b))
         [\<lparr>path = ''a.ts#chunk1of2'', content = ''one'' @ newline # ''two'', hash = None\<rparr>,
          \<lparr>path = ''a.ts#chunk2of2'', content = ''three'', hash = None\<rparr>])
       = split_nl three_lines"
    by simp
  from chunker_correct [OF pos, of "''short''" "''b.md''"] small
  have one: "splitFileContent example_config ''b.md'' ''short''
       = Some [\<lparr>path = ''b.md'', content = ''short'', hash = None\<rparr>]"
    by blast
  from pos big run cat small one show ?thesis by blast
qed

section \<open>Retry policy\<close>

declare retryLoop.simps [simp del]

lemma retryLoop_done:
  "\<not> attempt < maxR \<Longrightarrow>
   retryLoop maxR delay fn attempt lastError ws
     = \<lparr>outcome = Inl lastError, waits = ws, calls = attempt\<rparr>"
  by (simp add: retryLoop.simps)

lemma retryLoop_returns:
  "attempt < maxR \<Longrightarrow> fn attempt = Returns v \<Longrightarrow>
   retryLoop maxR delay fn attempt lastError ws
     = \<lparr>outcome = Inr v, waits = ws, calls = attempt + 1\<rparr>"
  by (simp add: retryLoop.simps)

lemma retryLoop_rethrows:
  "attempt < maxR \<Longrightarrow> fn attempt = Throws e \<Longrightarrow> rethrown e \<Longrightarrow>
   retryLoop maxR delay fn attempt lastError ws
     = \<lparr>outcome = Inl (Some e), waits = ws, calls = attempt + 1\<rparr>"
  by (simp add: retryLoop.simps)

lemma retryLoop_retries:
  "attempt < maxR \<Longrightarrow> fn attempt = Throws e \<Longrightarrow> \<not> rethrown e \<Longrightarrow>
   retryLoop maxR delay fn attempt lastError ws
     = retryLoop maxR delay fn (attempt + 1) (Some e)
         (if attempt < maxR - 1 then ws @ [delay * 2 ^ attempt] else ws)"
  by (subst retryLoop.simps) simp

text \<open>Where the loop stops: the first attempt that returns or is rethrown, or the budget.\<close>

lemma retryLoop_spec:
  "attempt \<le> maxR \<Longrightarrow>
   (let r = retryLoop maxR delay fn attempt lastError ws in
      attempt \<le> calls r \<and> calls r \<le> maxR
    \<and> (attempt < maxR \<longrightarrow> attempt < calls r)
    \<and> waits r = ws @ map (\<lambda>i. delay * 2 ^ i) [attempt..<calls r - 1]
    \<and> (\<forall>j. attempt \<le> j \<and> j < calls r - 1 \<longrightarrow> (\<exists>e. fn j = Throws e \<and> \<not> rethrown e))
    \<and> (if calls r = attempt then outcome r = Inl lastError
        else (case fn (calls r - 1) of
                Returns v \<Rightarrow> outcome r = Inr v
              | Throws e \<Rightarrow> outcome r = Inl (Some e) \<and> (\<not> rethrown e \<longrightarrow> calls r = maxR))))"
proof (induction maxR delay fn attempt lastError ws rule: retryLoop.induct)
  case (1 maxR delay fn attempt lastError ws)
  show ?case
  proof (cases "attempt < maxR")
    case False
    with "1.prems" show ?thesis by (auto simp: retryLoop_done)
  next
    case running: True
    show ?thesis
    proof (cases "fn attempt")
      case (Returns v)
      with running show ?thesis by (auto simp: retryLoop_returns)
    next
      case (Throws e)
      show ?thesis
      proof (cases "rethrown e")
        case True
        with running Throws show ?thesis by (auto simp: retryLoop_rethrows)
      next
        case False
        define ws' where "ws' = (if attempt < maxR - 1 then ws @ [delay * 2 ^ attempt] else ws)"
        define r where "r = retryLoop maxR delay fn (attempt + 1) (Some e) ws'"
        have step: "retryLoop maxR delay fn attempt lastError ws = r"
          using running Throws False by (simp add: retryLoop_retries r_def ws'_def)
        have le: "attempt + 1 \<le> maxR" using running by simp
        have IH: "attempt + 1 \<le> calls r \<and> calls r \<le> maxR
          \<and> (attempt + 1 < maxR \<longrightarrow> attempt + 1 < calls r)
          \<and> waits r = ws' @ map (\<lambda>i. delay * 2 ^ i) [attempt + 1..<calls r - 1]
          \<and> (\<forall>j. attempt + 1 \<le> j \<and> j < calls r - 1 \<longrightarrow> (\<exists>e. fn j = Throws e \<and> \<not> rethrown e))
          \<and> (if calls r = attempt + 1 then outcome r = Inl (Some e)
           else (case fn (calls r - 1) of
                   Returns v \<Rightarrow> outcome r = Inr v
                 | Throws e \<Rightarrow> outcome r = Inl (Some e) \<and> (\<not> rethrown e \<longrightarrow> calls r = maxR)))"
          using "1.IH" [OF running Throws False le]
          unfolding r_def ws'_def Let_def by blast
        have ih: "attempt + 1 \<le> calls r" "calls r \<le> maxR"
          "attempt + 1 < maxR \<longrightarrow> attempt + 1 < calls r"
          "waits r = ws' @ map (\<lambda>i. delay * 2 ^ i) [attempt + 1..<calls r - 1]"
          "\<forall>j. attempt + 1 \<le> j \<and> j < calls r - 1 \<longrightarrow> (\<exists>e. fn j = Throws e \<and> \<not> rethrown e)"
          "if calls r = attempt + 1 then outcome r = Inl (Some e)
           else (case fn (calls r - 1) of
                   Returns v \<Rightarrow> outcome r = Inr v
                 | Throws e \<Rightarrow> outcome r = Inl (Some e) \<and> (\<not> rethrown e \<longrightarrow> calls r = maxR))"
          using IH by blast+
        have w: "waits r = ws @ map (\<lambda>i. delay * 2 ^ i) [attempt..<calls r - 1]"
        proof (cases "attempt < maxR - 1")
          case True
          then have "attempt + 1 < calls r" using ih(3) by simp
          then have "[attempt..<calls r - 1] = attempt # [attempt + 1..<calls r - 1]"
            by (simp add: upt_conv_Cons)
          with True ih(4) show ?thesis by (simp add: ws'_def)
        next
          case False
          then have "calls r = attempt + 1" using ih(1,2) running by simp
          with False ih(4) show ?thesis by (simp add: ws'_def)
        qed
        have t: "\<forall>j. attempt \<le> j \<and> j < calls r - 1 \<longrightarrow> (\<exists>e. fn j = Throws e \<and> \<not> rethrown e)"
        proof (intro allI impI)
          fix j assume j: "attempt \<le> j \<and> j < calls r - 1"
          show "\<exists>e. fn j = Throws e \<and> \<not> rethrown e"
          proof (cases "j = attempt")
            case True
            with Throws \<open>\<not> rethrown e\<close> show ?thesis by simp
          next
            case False
            with j ih(5) show ?thesis by simp
          qed
        qed
        have o: "if calls r = attempt then outcome r = Inl lastError
           else (case fn (calls r - 1) of
                   Returns v \<Rightarrow> outcome r = Inr v
                 | Throws e \<Rightarrow> outcome r = Inl (Some e) \<and> (\<not> rethrown e \<longrightarrow> calls r = maxR))"
        proof (cases "calls r = attempt + 1")
          case True
          have "calls r = maxR" using True ih(3) ih(2) by auto
          with True ih(6) Throws show ?thesis by simp
        next
          case False
          with ih(1) ih(6) show ?thesis by simp
        qed
        show ?thesis
          unfolding step Let_def using ih(1,2) w t o by simp
      qed
    qed
  qed
qed

lemma rethrown_iff:
  "rethrown e \<longleftrightarrow>
     (\<exists>code st msg. e = AxiosError code st msg
        \<and> code \<noteq> Some ''ECONNABORTED'' \<and> code \<noteq> Some ''ETIMEDOUT''
        \<and> code \<noteq> Some ''ECONNREFUSED''
        \<and> st \<noteq> Some 429 \<and> (\<forall>s. st = Some s \<longrightarrow> s < 500))"
  by (cases e) (auto simp: isRetryable_def split: option.splits)

text \<open>
  Claim C5, as amended. A request is called at most \<open>maxRetries\<close> times (3 by default).
  After a failed call with index \<open>i\<close> (from 0) that is followed by another call the
  engine waits \<open>retryDelay * 2 ^ i\<close>, so the waits are \<open>d, 2d, 4d, ...\<close>. A call is
  followed by another one only if it threw an error that is not rethrown, and a run that
  ends on such an error has used the whole budget. The errors rethrown at once are the
  errors of the HTTP client whose code is none of \<open>ECONNABORTED\<close>, \<open>ETIMEDOUT\<close>,
  \<open>ECONNREFUSED\<close> and whose response status is neither 429 nor 500 or more; an error
  that does not come from the HTTP client is retried like a transient one.
\<close>

theorem retry_policy:
  "(let maxR = (case maxRetries options of None \<Rightarrow> 3 | Some m \<Rightarrow> m);
        delay = (case retryDelay options of None \<Rightarrow> 1000 | Some d \<Rightarrow> d);
        r = retryRequest fn options
    in calls r \<le> maxR
     \<and> waits r = map (\<lambda>i. delay * 2 ^ i) [0..<calls r - 1]
     \<and> (\<forall>j. j < calls r - 1 \<longrightarrow> (\<exists>e. fn j = Throws e \<and> \<not> rethrown e))
     \<and> (0 < maxR \<longrightarrow>
           0 < calls r
         \<and> (case fn (calls r - 1) of
               Returns v \<Rightarrow> outcome r = Inr v
             | Throws e \<Rightarrow> outcome r = Inl (Some e) \<and> (\<not> rethrown e \<longrightarrow> calls r = maxR)))
     \<and> (maxR = 0 \<longrightarrow> calls r = 0 \<and> outcome r = Inl None))
   \<and> (rethrown e \<longleftrightarrow>
        (\<exists>code st msg. e = AxiosError code st msg
           \<and> code \<noteq> Some ''ECONNABORTED'' \<and> code \<noteq> Some ''ETIMEDOUT''
           \<and> code \<noteq> Some ''ECONNREFUSED''
           \<and> st \<noteq> Some 429 \<and> (\<forall>s. st = Some s \<longrightarrow> s < 500)))"
proof -
  define maxR where "maxR = (case maxRetries options of None \<Rightarrow> 3 | Some m \<Rightarrow> m)"
  define delay where "delay = (case retryDelay options of None \<Rightarrow> 1000 | Some d \<Rightarrow> d)"
  define r where "r = retryLoop maxR delay fn 0 None []"
  have r: "retryRequest fn options = r"
    by (simp add: retryRequest_def r_def maxR_def delay_def)
  have spec: "0 \<le> calls r \<and> calls r \<le> maxR
    \<and> (0 < maxR \<longrightarrow> 0 < calls r)
    \<and> waits r = [] @ map (\<lambda>i. delay * 2 ^ i) [0..<calls r - 1]
    \<and> (\<forall>j. 0 \<le> j \<and> j < calls r - 1 \<longrightarrow> (\<exists>e. fn j = Throws e \<and> \<not> rethrown e))
    \<and> (if calls r = 0 then outcome r = Inl None
        else (case fn (calls r - 1) of
                Returns v \<Rightarrow> outcome r = Inr v
              | Throws e \<Rightarrow> outcome r = Inl (Some e) \<and> (\<not> rethrown e \<longrightarrow> calls r = maxR)))"
    using retryLoop_spec [of 0 maxR delay fn None "[]"]
    unfolding r_def Let_def by blast
  have a: "calls r \<le> maxR" using spec by blast
  have b: "waits r = map (\<lambda>i. delay * 2 ^ i) [0..<calls r - 1]" using spec by simp
  have c: "\<forall>j. j < calls r - 1 \<longrightarrow> (\<exists>e. fn j = Throws e \<and> \<not> rethrown e)"
    using spec by simp
  have d: "0 < maxR \<longrightarrow>
           0 < calls r
         \<and> (case fn (calls r - 1) of
               Returns v \<Rightarrow> outcome r = Inr v
             | Throws e \<Rightarrow> outcome r = Inl (Some e) \<and> (\<not> rethrown e \<longrightarrow> calls r = maxR))"
  proof
    assume "0 < maxR"
    then have "0 < calls r" using spec by blast
    moreover from this have "calls r \<noteq> 0" by simp
    ultimately show "0 < calls r
         \<and> (case fn (calls r - 1) of
               Returns v \<Rightarrow> outcome r = Inr v
             | Throws e \<Rightarrow> outcome r = Inl (Some e) \<and> (\<not> rethrown e \<longrightarrow> calls r = maxR))"
      using spec by presburger
  qed
  have z: "maxR = 0 \<longrightarrow> calls r = 0 \<and> outcome r = Inl None"
    using a spec by auto
  show ?thesis
    unfolding Let_def r maxR_def [symmetric] delay_def [symmetric]
    using a b c d z rethrown_iff [of e] by blast
qed

theorem retry_policy_witness:
  "calls (retryRequest unavailable \<lparr>maxRetries = Some 3, retryDelay = Some 1000\<rparr>) = 3
   \<and> waits (retryRequest unavailable \<lparr>maxRetries = Some 3, retryDelay = Some 1000\<rparr>)
       = [1000, 2000]
   \<and> unavailable 2 = Throws (AxiosError None (Some 503) ''Service Unavailable'')
   \<and> \<not> rethrown (AxiosError None (Some 503) ''Service Unavailable'')
   \<and> outcome (retryRequest unavailable \<lparr>maxRetries = Some 3, retryDelay = Some 1000\<rparr>)
       = Inl (Some (AxiosError None (Some 503) ''Service Unavailable''))
   \<and> rethrown (AxiosError None (Some 404) ''Not Found'')
   \<and> retryRequest not_found \<lparr>maxRetries = None, retryDelay = None\<rparr>
       = \<lparr>outcome = Inl (Some (AxiosError None (Some 404) ''Not Found'')), waits = [], calls = 1\<rparr>"
proof -
  have run: "retryRequest unavailable \<lparr>maxRetries = Some 3, retryDelay = Some 1000\<rparr>
      = \<lparr>outcome = Inl (Some (AxiosError None (Some 503) ''Service Unavailable'')),
         waits = [1000, 2000], calls = 3\<rparr>"
    by (simp add: retryRequest_def retryLoop.simps unavailable_def isRetryable_def)
  have run': "retryRequest not_found \<lparr>maxRetries = None, retryDelay = None\<rparr>
       = \<lparr>outcome = Inl (Some (AxiosError None (Some 404) ''Not Found'')), waits = [], calls = 1\<rparr>"
    by (simp add: retryRequest_def retryLoop.simps not_found_def isRetryable_def)
  have cls: "\<not> rethrown (AxiosError None (Some 503) ''Service Unavailable'')"
    "rethrown (AxiosError None (Some 404) ''Not Found'')"
    by (simp_all add: isRetryable_def)
  note retry_policy [of "\<lparr>maxRetries = Some 3, retryDelay = Some 1000\<rparr>" unavailable
      "AxiosError None (Some 404) ''Not Found''"]
  then have "waits (retryRequest unavailable \<lparr>maxRetries = Some 3, retryDelay = Some 1000\<rparr>)
      = map (\<lambda>i. 1000 * 2 ^ i)
         [0..<calls (retryRequest unavailable \<lparr>maxRetries = Some 3, retryDelay = Some 1000\<rparr>) - 1]"
    by (simp add: Let_def)
  then have "waits (retryRequest unavailable \<lparr>maxRetries = Some 3, retryDelay = Some 1000\<rparr>)
      = [1000, 2000]"
    by (simp add: run upt_conv_Cons)
  with run run' cls show ?thesis by (simp add: unavailable_def)
qed

text \<open>
  A connection reset reported by the HTTP client is not retried, and an error that is not
  a client error is retried until the budget is used up.
\<close>

theorem retry_classification_counterexample:
  "retryRequest connection_reset \<lparr>maxRetries = Some 3, retryDelay = Some 1000\<rparr>
     = \<lparr>outcome = Inl (Some (AxiosError (Some ''ECONNRESET'') None ''read ECONNRESET'')),
        waits = [], calls = 1\<rparr>
   \<and> retryRequest type_error \<lparr>maxRetries = Some 3, retryDelay = Some 1000\<rparr>
     = \<lparr>outcome = Inl (Some (OtherError ''Invalid URL'')), waits = [1000, 2000], calls = 3\<rparr>"
  by (simp add: retryRequest_def retryLoop.simps connection_reset_def type_error_def
      isRetryable_def)

section \<open>The indexing pass\<close>

subsection \<open>The upload loop\<close>

declare uploadLoop.simps [simp del]

lemma uploadLoop_step:
  "batchIdx < totalBatches \<Longrightarrow>
   uploadLoop config w toUpload totalBatches batchIdx st
     = uploadLoop config w toUpload totalBatches (batchIdx + 1)
         (if batchSucceeded (uploadBatch config w toUpload batchIdx)
          then st\<lparr>posts := posts st + calls (uploadBatch config w toUpload batchIdx),
                  uploaded := uploaded st @ returnedNames (uploadBatch config w toUpload batchIdx)\<rparr>
          else st\<lparr>posts := posts st + calls (uploadBatch config w toUpload batchIdx),
                  failed := failed st @ [batchIdx + 1]\<rparr>)"
  by (subst uploadLoop.simps)
     (simp add: Let_def batchSucceeded_def returnedNames_def split: sum.splits option.splits)

lemma uploadLoop_spec:
  "batchIdx \<le> totalBatches \<Longrightarrow>
   uploadLoop config w toUpload totalBatches batchIdx st
     = st\<lparr>uploaded := uploaded st
            @ concat (map (\<lambda>k. returnedNames (uploadBatch config w toUpload k))
                (filter (\<lambda>k. batchSucceeded (uploadBatch config w toUpload k))
                   [batchIdx..<totalBatches])),
          failed := failed st
            @ map Suc (filter (\<lambda>k. \<not> batchSucceeded (uploadBatch config w toUpload k))
                [batchIdx..<totalBatches]),
          posts := posts st
            + sum_list (map (\<lambda>k. calls (uploadBatch config w toUpload k))
                [batchIdx..<totalBatches])\<rparr>"
proof (induction "totalBatches - batchIdx" arbitrary: batchIdx st)
  case 0
  then have "batchIdx = totalBatches" by simp
  then show ?case by (simp add: uploadLoop.simps)
next
  case (Suc n)
  then have running: "batchIdx < totalBatches" by simp
  have upt: "[batchIdx..<totalBatches] = batchIdx # [batchIdx + 1..<totalBatches]"
    using running by (simp add: upt_conv_Cons)
  define st' where "st' =
      (if batchSucceeded (uploadBatch config w toUpload batchIdx)
          then st\<lparr>posts := posts st + calls (uploadBatch config w toUpload batchIdx),
                  uploaded := uploaded st @ returnedNames (uploadBatch config w toUpload batchIdx)\<rparr>
          else st\<lparr>posts := posts st + calls (uploadBatch config w toUpload batchIdx),
                  failed := failed st @ [batchIdx + 1]\<rparr>)"
  have n: "n = totalBatches - (batchIdx + 1)" using Suc.hyps(2) by simp
  have le: "batchIdx + 1 \<le> totalBatches" using running by simp
  have eq: "uploadLoop config w toUpload totalBatches batchIdx st
                 = uploadLoop config w toUpload totalBatches (batchIdx + 1) st'"
    unfolding st'_def by (rule uploadLoop_step [OF running])
  show ?case
    unfolding eq Suc.hyps(1) [OF n le, of st'] upt
    by (simp add: st'_def)
qed

lemma ceil_div_zero: "0 < b \<Longrightarrow> ceil_div 0 b = 0"
  by (simp add: ceil_div_def)

text \<open>The state of the upload step, whether or not there is something to upload.\<close>

lemma upload_state:
  assumes "0 < batchSize config"
  shows "(if length toUpload > 0
          then uploadLoop config w toUpload (ceil_div (length toUpload) (batchSize config)) 0
                 \<lparr>uploaded = [], failed = [], posts = 0\<rparr>
          else \<lparr>uploaded = [], failed = [], posts = 0\<rparr>)
     = \<lparr>uploaded = concat (map (\<lambda>k. returnedNames (uploadBatch config w toUpload k))
                (filter (\<lambda>k. batchSucceeded (uploadBatch config w toUpload k))
                   [0..<ceil_div (length toUpload) (batchSize config)])),
        failed = map Suc (filter (\<lambda>k. \<not> batchSucceeded (uploadBatch config w toUpload k))
                [0..<ceil_div (length toUpload) (batchSize config)]),
        posts = sum_list (map (\<lambda>k. calls (uploadBatch config w toUpload k))
                [0..<ceil_div (length toUpload) (batchSize config)])\<rparr>"
proof (cases "length toUpload > 0")
  case True
  then show ?thesis by (simp add: uploadLoop_spec)
next
  case False
  then show ?thesis using assms by (simp add: ceil_div_zero)
qed

text \<open>A pass that collected blobs and could read the stored entry, in one equation.\<close>

lemma indexProject_pass:
  fixes config :: Config and w :: World and blobs :: "Blob list"
    and path_resolve :: "string \<Rightarrow> string" and p :: string and elements :: "json list"
  defines "np \<equiv> normalizePath path_resolve p"
  defines "unchanged \<equiv> unchangedHashes (new_Set (stringsOf elements)) (currentHashes blobs)"
    and "toUpload \<equiv> blobsToUpload (blobHashMap blobs)
           (newHashes (new_Set (stringsOf elements)) (currentHashes blobs))"
  defines "n \<equiv> ceil_div (length toUpload) (batchSize config)"
    and "run \<equiv> uploadBatch config w toUpload"
  defines "names \<equiv> concat (map (\<lambda>k. returnedNames (run k)) (filter (\<lambda>k. batchSucceeded (run k)) [0..<n]))"
    and "failedL \<equiv> map Suc (filter (\<lambda>k. \<not> batchSucceeded (run k)) [0..<n])"
    and "posted \<equiv> sum_list (map (\<lambda>k. calls (run k)) [0..<n])"
  assumes c: "collectFiles w = Inr blobs" and ne: "blobs \<noteq> []" and bs: "0 < batchSize config"
    and el: "existingElements (typeErrorText w) (loadProjects (projectsFile w)) np = Inr elements"
  shows "indexProject config path_resolve w p =
    (case (case assignProperty (typeErrorText w) (loadProjects (projectsFile w)) np
                 (JArray (map JString (unchanged @ names))) of
             Inl e \<Rightarrow> Inl e
           | Inr projects \<Rightarrow> saveProjects (writeError w) projects) of
       Inl e \<Rightarrow> Some \<lparr>result = error_result (error_message e), fileAfter = projectsFile w,
                       uploadCalls = posted\<rparr>
     | Inr file \<Rightarrow>
         Some \<lparr>result =
                 \<lparr>status = (if failedL = [] then success else partial_success),
                  message =
                    (if length toUpload > 0
                     then msg_indexed @ show_nat (length (unchanged @ names))
                          @ msg_blobs_existing @ show_nat (length unchanged)
                          @ msg_added @ show_nat (length names) @ '')''
                     else msg_indexed @ show_nat (length (unchanged @ names))
                          @ msg_all_existing),
                  projectPath = Some np,
                  failedBatches = Some failedL,
                  stats = Some \<lparr>totalBlobs = length (unchanged @ names),
                                existingBlobs = length unchanged,
                                newBlobs = length names,
                                skippedBlobs = length unchanged\<rparr>\<rparr>,
               fileAfter = file,
               uploadCalls = posted\<rparr>)"
proof -
  have "\<not> (length toUpload > 0 \<and> batchSize config = 0)" using bs by simp
  then show ?thesis
    using c ne el
    unfolding indexProject_def Let_def
    apply (simp only: sum.case if_False list.size(3) length_0_conv
        np_def [symmetric])
    apply (simp only: unchanged_def [symmetric] toUpload_def [symmetric])
    apply (simp only: if_False upload_state [OF bs, of toUpload w])
    apply (auto simp: n_def names_def failedL_def posted_def run_def
        ceil_div_zero [OF bs] split: sum.splits)
    done
qed

text \<open>The passes that end before the upload, and the assignment.\<close>

lemma indexProject_throws:
  "collectFiles w = Inl e \<Longrightarrow>
   indexProject config path_resolve w p
     = Some \<lparr>result = error_result (error_message e), fileAfter = projectsFile w,
             uploadCalls = 0\<rparr>"
  by (simp add: indexProject_def)

lemma indexProject_empty:
  "collectFiles w = Inr [] \<Longrightarrow>
   indexProject config path_resolve w p
     = Some \<lparr>result = error_result msg_no_text_files, fileAfter = projectsFile w,
             uploadCalls = 0\<rparr>"
  by (simp add: indexProject_def)

lemma indexProject_unreadable:
  "collectFiles w = Inr blobs \<Longrightarrow> blobs \<noteq> [] \<Longrightarrow>
   existingElements (typeErrorText w) (loadProjects (projectsFile w))
     (normalizePath path_resolve p) = Inl e \<Longrightarrow>
   indexProject config path_resolve w p
     = Some \<lparr>result = error_result (error_message e), fileAfter = projectsFile w,
             uploadCalls = 0\<rparr>"
  by (simp add: indexProject_def)

lemma assignProperty_cases:
  "(\<exists>e. assignProperty te u k v = Inl e) \<or> (\<exists>u'. assignProperty te u k v = Inr u')"
  by (cases "assignProperty te u k v") auto

lemma assignProperty_throws:
  "(assignProperty te u k v = Inl e) = (assignProperty te u k v' = Inl e)"
  by (cases u) auto

subsection \<open>JSON values\<close>

lemma serialized_strings: "serialized (JArray (map JString hs)) = JArray (map JString hs)"
  by (induction hs) simp_all


lemma stringsOf_strings: "stringsOf (map JString hs) = hs"
  by (induction hs) simp_all

lemma set_stringsOf: "set (stringsOf vs) = {s. JString s \<in> set vs}"
  by (induction vs rule: stringsOf.induct) auto

text \<open>The set built from the stored elements has a string exactly when the set of the
  stored strings has it.\<close>

lemma has_stringsOf: "Set_has (new_Set vs) (JString h) = Set_has (new_Set (stringsOf vs)) h"
  by (simp add: Set_has_def set_new_Set set_stringsOf)

subsection \<open>Maps\<close>


lemma Map_get_set_other: "k' \<noteq> k \<Longrightarrow> Map_get (Map_set m k v) k' = Map_get m k'"
  by (induction m) (auto simp: Map_get_def)

lemma Map_set_others:
  "filter (\<lambda>entry. fst entry \<noteq> k) (Map_set m k v) = filter (\<lambda>entry. fst entry \<noteq> k) m"
  by (induction m) auto

lemma Map_set_entries:
  "entry \<in> set (Map_set m k v) \<Longrightarrow> entry = (k, v) \<or> entry \<in> set m"
  by (induction m) (auto split: if_splits)

lemma Map_keys_set: "set (Map_keys (Map_set m k v)) = insert k (set (Map_keys m))"
proof (induction m)
  case Nil
  then show ?case by (simp add: Map_keys_def)
next
  case (Cons entry m)
  obtain k' v' where entry: "entry = (k', v')" by (cases entry)
  from Cons show ?case
    by (cases "k' = k") (auto simp: entry Map_keys_def)
qed

lemma distinct_Map_set: "distinct (Map_keys m) \<Longrightarrow> distinct (Map_keys (Map_set m k v))"
proof (induction m)
  case Nil
  then show ?case by (simp add: Map_keys_def)
next
  case (Cons entry m)
  obtain k' v' where entry: "entry = (k', v')" by (cases entry)
  show ?case
  proof (cases "k' = k")
    case True
    with Cons.prems show ?thesis by (simp add: entry Map_keys_def)
  next
    case False
    have "k' \<notin> set (Map_keys (Map_set m k v))"
      using Cons.prems False by (simp add: Map_keys_set) (simp add: entry Map_keys_def)
    moreover have "distinct (Map_keys (Map_set m k v))"
      using Cons by (simp add: Map_keys_def)
    ultimately show ?thesis
      using False by (simp add: entry Map_keys_def)
  qed
qed

subsection \<open>The hash map of a pass\<close>

lemma blobHashMap_fold:
  "distinct (Map_keys m) \<and> (\<forall>entry \<in> set m. hashOf (snd entry) = fst entry)
   \<Longrightarrow>
   distinct (Map_keys (fold (\<lambda>blob m.
             let h = calculateHash (path blob) (content blob)
             in Map_set m h (blob\<lparr>hash := Some h\<rparr>)) blobs m))
   \<and> (\<forall>entry \<in> set (fold (\<lambda>blob m.
             let h = calculateHash (path blob) (content blob)
             in Map_set m h (blob\<lparr>hash := Some h\<rparr>)) blobs m). hashOf (snd entry) = fst entry)
   \<and> set (Map_keys (fold (\<lambda>blob m.
             let h = calculateHash (path blob) (content blob)
             in Map_set m h (blob\<lparr>hash := Some h\<rparr>)) blobs m))
       = hashOf ` set blobs \<union> set (Map_keys m)"
proof (induction blobs arbitrary: m)
  case Nil
  then show ?case by simp
next
  case (Cons b blobs)
  define m' where "m' = Map_set m (hashOf b) (b\<lparr>hash := Some (hashOf b)\<rparr>)"
  have d: "distinct (Map_keys m')"
    using Cons.prems by (simp add: m'_def distinct_Map_set)
  have e: "\<forall>entry \<in> set m'. hashOf (snd entry) = fst entry"
  proof
    fix entry assume "entry \<in> set m'"
    then have "entry = (hashOf b, b\<lparr>hash := Some (hashOf b)\<rparr>) \<or> entry \<in> set m"
      unfolding m'_def by (rule Map_set_entries)
    then show "hashOf (snd entry) = fst entry"
      using Cons.prems by (auto simp: hashOf_def)
  qed
  have k: "set (Map_keys m') = insert (hashOf b) (set (Map_keys m))"
    by (simp add: m'_def Map_keys_set)
  from Cons.IH [of m'] d e k show ?case
    by (simp add: Let_def m'_def hashOf_def [symmetric])
qed

lemma blobHashMap_keys:
  "distinct (Map_keys (blobHashMap blobs))"
  "set (Map_keys (blobHashMap blobs)) = hashOf ` set blobs"
  "entry \<in> set (blobHashMap blobs) \<Longrightarrow> hashOf (snd entry) = fst entry"
  using blobHashMap_fold [of "[]" blobs] by (simp_all add: blobHashMap_def Map_keys_def)

lemma set_currentHashes: "set (currentHashes blobs) = hashOf ` set blobs"
  by (simp add: currentHashes_def set_new_Set blobHashMap_keys)



subsection \<open>The two parts of the diff\<close>




lemma distinct_unchangedHashes: "distinct (unchangedHashes existing current)"
  by (simp add: unchangedHashes_def distinct_new_Set)


subsection \<open>Batches are disjoint slices\<close>




subsection \<open>Batches and their requests\<close>






subsection \<open>The example passes\<close>


lemmas pass_eval =
  indexProject_def Let_def normalizePath_def loadProjects_def existingElements_def
  orEmpty_def Map_get_def blobHashMap_def currentHashes_def Map_keys_def
  unchangedHashes_def newHashes_def new_Set_def Set_add_def Set_has_def
  blobsToUpload_def ceil_div_def uploadLoop.simps uploadBatch_def batchBlobs_def slice_def
  retryRequest_def retryLoop.simps saveProjects_def digit_char_def isRetryable_def
  error_result_def honest_upload_def one_per_batch_def example_config_def
  blob_a_def blob_b_def blob_c_def blob_d_def hashOf_def digest_a digest_b digest_c digest_d

lemma example_pass:
  "indexProject one_per_batch id example_world ''/proj''
   = Some \<lparr>result =
        \<lparr>status = partial_success,
         message = msg_indexed @ ''3'' @ msg_blobs_existing @ ''1'' @ msg_added @ ''2'' @ '')'',
         projectPath = Some ''/proj'',
         failedBatches = Some [2],
         stats = Some \<lparr>totalBlobs = 3, existingBlobs = 1, newBlobs = 2, skippedBlobs = 1\<rparr>\<rparr>,
      fileAfter =
        Parsed (JObject [(''/other'', JArray [JString ''0123'', JString ''4567'']),
                         (''/proj'', JArray [JString (hashOf blob_a), JString (hashOf blob_b),
                                              JString (hashOf blob_d)])]),
      uploadCalls = 5\<rparr>"
  by (simp add: example_world_def pass_eval)





lemma pass_503:
  "indexProject one_per_batch id world_503 ''/proj''
   = Some \<lparr>result =
        \<lparr>status = partial_success,
         message = msg_indexed @ ''0'' @ msg_blobs_existing @ ''0'' @ msg_added @ ''0'' @ '')'',
         projectPath = Some ''/proj'',
         failedBatches = Some [1],
         stats = Some \<lparr>totalBlobs = 0, existingBlobs = 0, newBlobs = 0, skippedBlobs = 0\<rparr>\<rparr>,
      fileAfter = Parsed (JObject [(''/proj'', JArray [])]),
      uploadCalls = 3\<rparr>"
  by (simp add: world_503_def example_world_def pass_eval)

lemma pass_read_only:
  "indexProject one_per_batch id world_read_only ''/proj''
   = Some \<lparr>result = \<lparr>status = error, message = ''EACCES: permission denied'',
                       projectPath = None, failedBatches = None, stats = None\<rparr>,
      fileAfter = NoFile,
      uploadCalls = 1\<rparr>"
  by (simp add: world_read_only_def example_world_def pass_eval)

section \<open>Partial failure containment\<close>




section \<open>The status of a pass\<close>

text \<open>
  Claim C3, as amended. With a positive \<open>batchSize\<close>, every pass returns a result. Its
  status is \<open>error\<close> exactly when the pass could not finish: collecting the files threw,
  no blob was collected, the stored value could not be used (reading the entry of the
  project or iterating over it threw, or the assignment of the new entry threw), or
  \<open>projects.json\<close> could not be written; \<open>projects.json\<close> is then as it was. Otherwise the
  status is \<open>partial_success\<close> exactly when at least one batch failed, whether or not
  another succeeded, and \<open>success\<close> exactly when no batch failed.
\<close>

theorem status_invariant:
  fixes config :: Config and w :: World
    and path_resolve :: "string \<Rightarrow> string" and p :: string
  defines "np \<equiv> normalizePath path_resolve p"
    and "te \<equiv> typeErrorText w"
    and "projects \<equiv> loadProjects (projectsFile w)"
  defines "toUpload \<equiv> (\<lambda>blobs elements. blobsToUpload (blobHashMap blobs)
           (newHashes (new_Set (stringsOf elements)) (currentHashes blobs)))"
  defines "n \<equiv> (\<lambda>blobs elements. ceil_div (length (toUpload blobs elements)) (batchSize config))"
    and "run \<equiv> (\<lambda>blobs elements. uploadBatch config w (toUpload blobs elements))"
  assumes bs: "0 < batchSize config"
  shows "\<exists>r. indexProject config path_resolve w p = Some r
    \<and> ((status (result r) = error)
         = ((\<exists>e. collectFiles w = Inl e) \<or> collectFiles w = Inr []
            \<or> (\<exists>e. existingElements te projects np = Inl e)
            \<or> (\<exists>e. assignProperty te projects np (JArray []) = Inl e)
            \<or> writeError w \<noteq> None))
    \<and> (\<forall>blobs elements.
          collectFiles w = Inr blobs \<and> existingElements te projects np = Inr elements \<longrightarrow>
          ((status (result r) = partial_success)
            = (status (result r) \<noteq> error
               \<and> (\<exists>k<n blobs elements. \<not> batchSucceeded (run blobs elements k))))
        \<and> ((status (result r) = success)
            = (status (result r) \<noteq> error
               \<and> (\<forall>k<n blobs elements. batchSucceeded (run blobs elements k)))))
    \<and> (status (result r) = error \<longrightarrow> fileAfter r = projectsFile w)"
proof (cases "collectFiles w")
  case (Inl e)
  then show ?thesis
    by (simp add: indexProject_throws error_result_def)
next
  case (Inr blobs)
  show ?thesis
  proof (cases "blobs = []")
    case True
    with Inr show ?thesis
      by (simp add: indexProject_empty error_result_def)
  next
    case False
    show ?thesis
    proof (cases "existingElements te projects np")
      case (Inl e)
      have "indexProject config path_resolve w p
         = Some \<lparr>result = error_result (error_message e), fileAfter = projectsFile w,
                 uploadCalls = 0\<rparr>"
        using indexProject_unreadable [OF Inr False, of path_resolve p e] Inl
        by (simp add: te_def projects_def np_def)
      with Inr Inl show ?thesis by (simp add: error_result_def)
    next
      case el: (Inr elements)
      have el': "existingElements (typeErrorText w) (loadProjects (projectsFile w))
                   (normalizePath path_resolve p) = Inr elements"
        using el by (simp add: te_def projects_def np_def)
      define r where "r = the (indexProject config path_resolve w p)"
      define names where "names = concat (map (\<lambda>k. returnedNames (run blobs elements k))
          (filter (\<lambda>k. batchSucceeded (run blobs elements k)) [0..<n blobs elements]))"
      define failedL where "failedL = map Suc
          (filter (\<lambda>k. \<not> batchSucceeded (run blobs elements k)) [0..<n blobs elements])"
      define posted where
        "posted = sum_list (map (\<lambda>k. calls (run blobs elements k)) [0..<n blobs elements])"
      define unchanged where
        "unchanged = unchangedHashes (new_Set (stringsOf elements)) (currentHashes blobs)"
      define saved where "saved =
        (case assignProperty te projects np (JArray (map JString (unchanged @ names))) of
             Inl e \<Rightarrow> Inl e
           | Inr projects \<Rightarrow> saveProjects (writeError w) projects)"
      define finished where "finished = (\<lambda>file.
         \<lparr>result =
                 \<lparr>status = (if failedL = [] then success else partial_success),
                  message =
                    (if length (toUpload blobs elements) > 0
                     then msg_indexed @ show_nat (length (unchanged @ names))
                          @ msg_blobs_existing @ show_nat (length unchanged)
                          @ msg_added @ show_nat (length names) @ '')''
                     else msg_indexed @ show_nat (length (unchanged @ names))
                          @ msg_all_existing),
                  projectPath = Some np,
                  failedBatches = Some failedL,
                  stats = Some \<lparr>totalBlobs = length (unchanged @ names),
                                existingBlobs = length unchanged,
                                newBlobs = length names,
                                skippedBlobs = length unchanged\<rparr>\<rparr>,
               fileAfter = file,
               uploadCalls = posted\<rparr>)"
      have pass: "indexProject config path_resolve w p =
        (case saved of
           Inl e \<Rightarrow> Some \<lparr>result = error_result (error_message e), fileAfter = projectsFile w,
                           uploadCalls = posted\<rparr>
         | Inr file \<Rightarrow> Some (finished file))"
        unfolding finished_def saved_def unchanged_def names_def failedL_def posted_def
          run_def n_def toUpload_def np_def te_def projects_def
        by (rule indexProject_pass [OF Inr False bs el'])
      have filt: "(failedL = []) = (\<forall>k<n blobs elements. batchSucceeded (run blobs elements k))"
        by (auto simp: failedL_def filter_empty_conv)
      have thr: "(\<exists>e. saved = Inl e)
          = ((\<exists>e. assignProperty te projects np (JArray []) = Inl e) \<or> writeError w \<noteq> None)"
      proof (cases "assignProperty te projects np (JArray (map JString (unchanged @ names)))")
        case (Inl e)
        then have "assignProperty te projects np (JArray []) = Inl e"
          by (rule assignProperty_throws [THEN iffD1])
        with Inl show ?thesis by (auto simp: saved_def)
      next
        case (Inr u)
        have "assignProperty te projects np (JArray []) \<noteq> Inl e" for e
        proof
          assume "assignProperty te projects np (JArray []) = Inl e"
          then have "assignProperty te projects np (JArray (map JString (unchanged @ names)))
                       = Inl e"
            by (rule assignProperty_throws [THEN iffD1])
          with Inr show False by simp
        qed
        then have "\<forall>e. assignProperty te projects np (JArray []) \<noteq> Inl e" by blast
        with Inr show ?thesis
          by (auto simp: saved_def saveProjects_def split: option.splits)
      qed
      have r: "indexProject config path_resolve w p = Some r"
        unfolding r_def pass by (cases saved) simp_all
      have st: "status (result r)
          = (if \<exists>e. saved = Inl e then error
             else if \<forall>k<n blobs elements. batchSucceeded (run blobs elements k) then success
             else partial_success)"
        unfolding r_def pass
        by (cases saved) (simp_all add: error_result_def finished_def filt)
      have fa: "status (result r) = error \<longrightarrow> fileAfter r = projectsFile w"
        unfolding r_def pass
        by (cases saved) (simp_all add: error_result_def finished_def)
      have a: "(status (result r) = error)
         = ((\<exists>e. collectFiles w = Inl e) \<or> collectFiles w = Inr []
            \<or> (\<exists>e. existingElements te projects np = Inl e)
            \<or> (\<exists>e. assignProperty te projects np (JArray []) = Inl e)
            \<or> writeError w \<noteq> None)"
        using Inr False el thr by (auto simp: st)
      have b: "(status (result r) = partial_success)
            = (status (result r) \<noteq> error
               \<and> (\<exists>k<n blobs elements. \<not> batchSucceeded (run blobs elements k)))"
        by (auto simp: st)
      have c: "(status (result r) = success)
            = (status (result r) \<noteq> error
               \<and> (\<forall>k<n blobs elements. batchSucceeded (run blobs elements k)))"
        by (auto simp: st)
      show ?thesis
        using r a b c fa Inr el by auto
    qed
  qed
qed

theorem status_invariant_witness:
  "0 < batchSize one_per_batch
   \<and> (\<exists>r. indexProject one_per_batch id example_world ''/proj'' = Some r
          \<and> status (result r) \<noteq> error
          \<and> status (result r) = partial_success
          \<and> failedBatches (result r) = Some [2]
          \<and> collectFiles example_world = Inr [blob_a, blob_b, blob_c, blob_d]
          \<and> existingElements (typeErrorText example_world)
                (loadProjects (projectsFile example_world)) (normalizePath id ''/proj'')
              = Inr [JString (hashOf blob_a)]
          \<and> assignProperty (typeErrorText example_world)
                (loadProjects (projectsFile example_world)) (normalizePath id ''/proj'') (JArray [])
              = Inr (JObject [(''/other'', JArray [JString ''0123'', JString ''4567'']),
                              (''/proj'', JArray [])])
          \<and> writeError example_world = None)"
proof -
  have bs: "0 < batchSize one_per_batch"
    by (simp add: one_per_batch_def example_config_def)
  from status_invariant [OF bs, of id example_world "''/proj''"]
  obtain r where "indexProject one_per_batch id example_world ''/proj'' = Some r
    \<and> ((status (result r) = error)
         = ((\<exists>e. collectFiles example_world = Inl e) \<or> collectFiles example_world = Inr []
            \<or> (\<exists>e. existingElements (typeErrorText example_world)
                      (loadProjects (projectsFile example_world)) (normalizePath id ''/proj'')
                    = Inl e)
            \<or> (\<exists>e. assignProperty (typeErrorText example_world)
                      (loadProjects (projectsFile example_world)) (normalizePath id ''/proj'')
                      (JArray []) = Inl e)
            \<or> writeError example_world \<noteq> None))"
    by (elim exE conjE) (rule that, intro conjI, assumption+)
  then have r: "indexProject one_per_batch id example_world ''/proj'' = Some r"
    and e: "(status (result r) = error)
         = ((\<exists>e. collectFiles example_world = Inl e) \<or> collectFiles example_world = Inr []
            \<or> (\<exists>e. existingElements (typeErrorText example_world)
                      (loadProjects (projectsFile example_world)) (normalizePath id ''/proj'')
                    = Inl e)
            \<or> (\<exists>e. assignProperty (typeErrorText example_world)
                      (loadProjects (projectsFile example_world)) (normalizePath id ''/proj'')
                      (JArray []) = Inl e)
            \<or> writeError example_world \<noteq> None)"
    by (rule conjunct1, rule conjunct2)
  have c: "collectFiles example_world = Inr [blob_a, blob_b, blob_c, blob_d]"
    and wr: "writeError example_world = None"
    by (simp_all add: example_world_def)
  have el: "existingElements (typeErrorText example_world)
                (loadProjects (projectsFile example_world)) (normalizePath id ''/proj'')
              = Inr [JString (hashOf blob_a)]"
    by (simp add: example_world_def existingElements_def loadProjects_def normalizePath_def
        Map_get_def orEmpty_def)
  have asg: "assignProperty (typeErrorText example_world)
                (loadProjects (projectsFile example_world)) (normalizePath id ''/proj'') (JArray [])
              = Inr (JObject [(''/other'', JArray [JString ''0123'', JString ''4567'']),
                              (''/proj'', JArray [])])"
    by (simp add: example_world_def loadProjects_def normalizePath_def)
  from e have ok: "status (result r) \<noteq> error" by (simp add: c wr el asg)
  from r have "status (result r) = partial_success" and "failedBatches (result r) = Some [2]"
    by (auto simp: example_pass)
  with ok r c el asg wr bs show ?thesis by blast
qed

text \<open>
  When the only batch fails, no batch succeeded, and the status is \<open>partial_success\<close>.
  When the upload succeeded and \<open>projects.json\<close> cannot be written, the status is
  \<open>error\<close> after the indexing work was done.
\<close>

theorem status_counterexample:
  "indexProject one_per_batch id world_503 ''/proj''
   = Some \<lparr>result =
        \<lparr>status = partial_success,
         message = msg_indexed @ ''0'' @ msg_blobs_existing @ ''0'' @ msg_added @ ''0'' @ '')'',
         projectPath = Some ''/proj'',
         failedBatches = Some [1],
         stats = Some \<lparr>totalBlobs = 0, existingBlobs = 0, newBlobs = 0, skippedBlobs = 0\<rparr>\<rparr>,
      fileAfter = Parsed (JObject [(''/proj'', JArray [])]),
      uploadCalls = 3\<rparr>
   \<and> indexProject one_per_batch id world_read_only ''/proj''
   = Some \<lparr>result = \<lparr>status = error, message = ''EACCES: permission denied'',
                       projectPath = None, failedBatches = None, stats = None\<rparr>,
      fileAfter = NoFile,
      uploadCalls = 1\<rparr>"
  by (simp add: pass_503 pass_read_only)

end
